theory Spec2Isabelle
  imports Main "HOL-Library.Word"
begin

section \<open>Data model\<close>

text \<open>
  The decision engine of the workflow client: the workflow context and the event handler
  of \<^verbatim>\<open>client/flow/event_handlers.go\<close>, and the workflow definition adapter
  (\<^verbatim>\<open>Execute\<close>, \<^verbatim>\<open>executeDispatcher\<close>, the synchronous \<^verbatim>\<open>ExecuteActivity\<close>).

  A Go byte slice is a string option: \<open>None\<close> is the nil slice. A pointer field of a
  generated record is an option, \<open>None\<close> the nil pointer; the generated getters return
  the zero value for a field that is not set.
\<close>

type_synonym bytes = "string option"

text \<open>The implementations of the \<^verbatim>\<open>Error\<close> interface that the engine builds.\<close>

datatype Error =
    errorImpl string bytes
  | ActivityTaskFailedError string bytes
  | ActivityTaskTimeoutError "64 word"

definition NewError :: "string \<Rightarrow> bytes \<Rightarrow> Error" where
  "NewError reason details = errorImpl reason details"

record WorkflowType =
  wt_Name :: "string option"

record ActivityType =
  at_Name :: "string option"

record TaskList =
  tl_Name :: "string option"

record WorkflowExecution =
  we_WorkflowId :: "string option"
  we_RunId :: "string option"

record WorkflowInfo =
  workflowExecution :: WorkflowExecution
  workflowType :: WorkflowType
  taskListName :: string

record ExecuteActivityParameters =
  ActivityID :: "string option"
  ActivityType :: ActivityType
  TaskListName :: string
  Input :: bytes
  ScheduleToCloseTimeoutSeconds :: "32 word"
  ScheduleToStartTimeoutSeconds :: "32 word"
  StartToCloseTimeoutSeconds :: "32 word"
  HeartbeatTimeoutSeconds :: "32 word"

text \<open>
  The decision record and its attributes are generated code; the model keeps the fields
  that \<^verbatim>\<open>ExecuteActivity\<close> and \<^verbatim>\<open>CreateNewDecision\<close> assign.
\<close>

datatype DecisionType =
    DecisionType_ScheduleActivityTask
  | DecisionType_CompleteWorkflowExecution
  | DecisionType_FailWorkflowExecution
  | DecisionType_StartTimer
  | DecisionType_CancelTimer

record ScheduleActivityTaskDecisionAttributes =
  attr_ActivityId :: "string option"
  attr_ActivityType :: "ActivityType option"
  attr_TaskList :: "TaskList option"
  attr_Input :: bytes
  attr_ScheduleToCloseTimeoutSeconds :: "32 word option"
  attr_StartToCloseTimeoutSeconds :: "32 word option"
  attr_ScheduleToStartTimeoutSeconds :: "32 word option"

record Decision =
  DecisionType :: "DecisionType option"
  ScheduleActivityTaskAttributes :: "ScheduleActivityTaskDecisionAttributes option"

definition GetActivityId :: "ScheduleActivityTaskDecisionAttributes \<Rightarrow> string" where
  "GetActivityId a = (case attr_ActivityId a of None \<Rightarrow> [] | Some v \<Rightarrow> v)"

subsection \<open>History events\<close>

text \<open>
  The discriminant: the fifteen variants that \<^verbatim>\<open>ProcessEvent\<close> switches on, and
  \<open>EventType_Unlisted\<close> for any other value of the generated enumeration. An event
  carries its discriminant; of the attribute records, the fields that the handlers read
  are kept.
\<close>

datatype EventType =
    EventType_WorkflowExecutionStarted
  | EventType_WorkflowExecutionCompleted
  | EventType_WorkflowExecutionFailed
  | EventType_WorkflowExecutionTimedOut
  | EventType_DecisionTaskScheduled
  | EventType_DecisionTaskStarted
  | EventType_DecisionTaskTimedOut
  | EventType_DecisionTaskCompleted
  | EventType_ActivityTaskScheduled
  | EventType_ActivityTaskStarted
  | EventType_ActivityTaskCompleted
  | EventType_ActivityTaskFailed
  | EventType_ActivityTaskTimedOut
  | EventType_TimerStarted
  | EventType_TimerFired
  | EventType_Unlisted int

record WorkflowExecutionStartedEventAttributes =
  started_Input :: bytes

record ActivityTaskScheduledEventAttributes =
  scheduled_ActivityId :: "string option"

record ActivityTaskCompletedEventAttributes =
  completed_Result :: bytes
  completed_ScheduledEventId :: "64 word option"

record ActivityTaskFailedEventAttributes =
  failed_Reason :: "string option"
  failed_Details :: bytes
  failed_ScheduledEventId :: "64 word option"

record ActivityTaskTimedOutEventAttributes =
  timedOut_TimeoutType :: "64 word option"
  timedOut_ScheduledEventId :: "64 word option"

record HistoryEvent =
  EventId :: "64 word option"
  EventType :: EventType
  WorkflowExecutionStartedAttributes :: "WorkflowExecutionStartedEventAttributes option"
  ActivityTaskScheduledAttributes :: "ActivityTaskScheduledEventAttributes option"
  ActivityTaskCompletedAttributes :: "ActivityTaskCompletedEventAttributes option"
  ActivityTaskFailedAttributes :: "ActivityTaskFailedEventAttributes option"
  ActivityTaskTimedOutAttributes :: "ActivityTaskTimedOutEventAttributes option"

definition GetEventId :: "HistoryEvent \<Rightarrow> 64 word" where
  "GetEventId e = (case EventId e of None \<Rightarrow> 0 | Some v \<Rightarrow> v)"

definition GetEventType :: "HistoryEvent \<Rightarrow> EventType" where
  "GetEventType e = EventType e"

definition GetScheduledEventId :: "64 word option \<Rightarrow> 64 word" where
  "GetScheduledEventId f = (case f of None \<Rightarrow> 0 | Some v \<Rightarrow> v)"

definition GetScheduledActivityId :: "ActivityTaskScheduledEventAttributes \<Rightarrow> string" where
  "GetScheduledActivityId a = (case scheduled_ActivityId a of None \<Rightarrow> [] | Some v \<Rightarrow> v)"

definition GetTimeoutType :: "ActivityTaskTimedOutEventAttributes \<Rightarrow> 64 word" where
  "GetTimeoutType a = (case timedOut_TimeoutType a of None \<Rightarrow> 0 | Some v \<Rightarrow> v)"

subsection \<open>The coroutine runtime and the user's workflow\<close>

text \<open>
  What \<^verbatim>\<open>ExecuteUntilAllBlocked\<close> reports to \<^verbatim>\<open>executeDispatcher\<close>, and what the
  coroutines did to the rest of the engine while they ran: the panic the dispatcher
  recovered, the calls of the synchronous \<^verbatim>\<open>ExecuteActivity\<close> in the order the
  coroutines made them (each with the handle \<open>'k\<close> of the channel and frame its callback
  closes over), and the pair the root function returned, when it returned in this pump.
\<close>

record PanicError =
  panic_Error :: string
  panic_StackTrace :: string

record 'k pumped =
  panicked :: "PanicError option"
  scheduled :: "(ExecuteActivityParameters \<times> 'k) list"
  returned :: "(bytes \<times> Error option) option"

text \<open>
  The user's workflow running on the coroutine package, as a deterministic machine over
  the states \<open>'c\<close> of its coroutines and channels. The workflow is user code and the
  coroutine package is not part of the sources, so both are parameters of the model:
  \<^item> \<open>root input\<close>: the coroutines of a new dispatcher, with the root function ready
    to run \<^verbatim>\<open>workflow.Execute(c, input)\<close>;
  \<^item> \<open>advance\<close>: every runnable coroutine is run until it finishes or blocks;
  \<^item> \<open>setResult\<close>, \<open>setErr\<close>: the callback's writes to the \<^verbatim>\<open>result\<close> and \<^verbatim>\<open>err\<close>
    variables of the frame that waits on the channel;
  \<^item> \<open>SendAsync\<close>: the non-blocking send of \<^verbatim>\<open>true\<close> on the channel, and whether it
    was accepted.
\<close>

record ('c, 'k) Workflow =
  root :: "bytes \<Rightarrow> 'c"
  advance :: "'c \<Rightarrow> 'k pumped \<times> 'c"
  setResult :: "'k \<Rightarrow> bytes \<Rightarrow> 'c \<Rightarrow> 'c"
  setErr :: "'k \<Rightarrow> Error \<Rightarrow> 'c \<Rightarrow> 'c"
  SendAsync :: "'k \<Rightarrow> 'c \<Rightarrow> bool \<times> 'c"

record ('c, 'k) Dispatcher =
  program :: "('c, 'k) Workflow"
  coroutines :: 'c
  closed :: bool
  poisoned :: bool

text \<open>
  A Go panic that leaves \<^verbatim>\<open>ProcessEvent\<close>, as a value: a nil pointer dereference, the
  callback's \<^verbatim>\<open>panic("unexpected")\<close>, and the rejection of a pump by a closed
  dispatcher.
\<close>

datatype goPanic = NilPointerDereference | Unexpected | DispatcherClosed

datatype 'a outcome = Returns 'a | Panics goPanic

definition NewDispatcher :: "('c, 'k) Workflow \<Rightarrow> bytes \<Rightarrow> ('c, 'k) Dispatcher" where
  "NewDispatcher w input =
     \<lparr>program = w, coroutines = root w input, closed = False, poisoned = False\<rparr>"

definition nothingPumped :: "'k pumped" where
  "nothingPumped = \<lparr>panicked = None, scheduled = [], returned = None\<rparr>"

text \<open>
  Modelled from the spec: the dispatcher of the coroutine package, which is not part of
  the sources. \<^verbatim>\<open>Close()\<close> releases the dispatcher and subsequent pumps are rejected;
  a panic inside a coroutine surfaces through \<^verbatim>\<open>ExecuteUntilAllBlocked\<close> and poisons
  the dispatcher, and any further pump is a no-op; otherwise the pump advances every
  runnable coroutine until all are blocked.
\<close>

definition ExecuteUntilAllBlocked ::
  "('c, 'k) Dispatcher \<Rightarrow> ('k pumped \<times> ('c, 'k) Dispatcher) outcome" where
  "ExecuteUntilAllBlocked d =
     (if closed d then Panics DispatcherClosed
      else if poisoned d then Returns (nothingPumped, d)
      else (case advance (program d) (coroutines d) of
              (p, c') \<Rightarrow>
                Returns (p, d\<lparr>coroutines := c', poisoned := (panicked p \<noteq> None)\<rparr>)))"

definition Close :: "('c, 'k) Dispatcher \<Rightarrow> ('c, 'k) Dispatcher" where
  "Close d = d\<lparr>closed := True\<rparr>"

subsection \<open>The workflow context and the event handler\<close>

text \<open>
  The one function literal that is registered as a \<^verbatim>\<open>ResultHandler\<close>: the callback of
  the synchronous \<^verbatim>\<open>ExecuteActivity\<close>, which closes over its \<^verbatim>\<open>contextImpl\<close> (a
  reference into the handler's \<open>contexts\<close>) and over the channel and frame \<open>'k\<close>.
  A nil handler is \<open>None\<close>.
\<close>

datatype 'k ResultHandler = activityCallback nat 'k

record workflowResult =
  result_workflowResult :: bytes
  result_error :: "Error option"

record ('c, 'k) contextImpl =
  dispatcher :: "('c, 'k) Dispatcher"
  result :: "workflowResult option"

text \<open>
  The completion handler acts on the world outside the engine; \<open>'x\<close> is the state of
  that world, and the handler is a function on it.
\<close>

record ('c, 'k, 'x) workflowContext =
  workflowInfo :: WorkflowInfo
  workflowDefinitionFactory :: "WorkflowType \<Rightarrow> ('c, 'k) Workflow option \<times> Error option"
  scheduledActivites :: "string \<rightharpoonup> 'k ResultHandler option"
  scheduledEventIDToActivityID :: "64 word \<rightharpoonup> string"
  counterID :: "32 word"
  executeDecisions :: "Decision list"
  completeHandler :: "bytes \<Rightarrow> Error option \<Rightarrow> 'x \<Rightarrow> 'x"

text \<open>
  The event handler embeds the workflow context. The objects that \<^verbatim>\<open>Execute\<close>
  allocates (a result slot and a dispatcher, shared by every \<^verbatim>\<open>contextImpl\<close> of one
  run and by the callbacks) live in \<open>contexts\<close>; \<open>outside\<close> is the world the completion
  handler writes to. Logging is left out.
\<close>

record ('c, 'k, 'x) workflowExecutionEventHandler =
  wc :: "('c, 'k, 'x) workflowContext"
  workflowDefinition :: "('c, 'k) Workflow option"
  contexts :: "('c, 'k) contextImpl list"
  outside :: 'x

definition newWorkflowExecutionEventHandler ::
  "WorkflowInfo \<Rightarrow> (WorkflowType \<Rightarrow> ('c, 'k) Workflow option \<times> Error option) \<Rightarrow>
   (bytes \<Rightarrow> Error option \<Rightarrow> 'x \<Rightarrow> 'x) \<Rightarrow> 'x \<Rightarrow>
   ('c, 'k, 'x) workflowExecutionEventHandler" where
  "newWorkflowExecutionEventHandler info factory completionHandler x =
     \<lparr>wc = \<lparr>workflowInfo = info,
             workflowDefinitionFactory = factory,
             scheduledActivites = Map.empty,
             scheduledEventIDToActivityID = Map.empty,
             counterID = 0,
             executeDecisions = [],
             completeHandler = completionHandler\<rparr>,
      workflowDefinition = None,
      contexts = [],
      outside = x\<rparr>"

section \<open>Workflow context operations\<close>

text \<open>\<^verbatim>\<open>fmt.Sprintf("%d", v)\<close> for a signed 32-bit value.\<close>

definition digit :: "nat \<Rightarrow> char" where
  "digit d = ''0123456789'' ! d"

fun decimalNat :: "nat \<Rightarrow> string" where
  "decimalNat n =
     (if n < 10 then [digit n]
      else decimalNat (n div 10) @ [digit (n mod 10)])"

definition decimal :: "int \<Rightarrow> string" where
  "decimal i = (if i < 0 then CHR ''-'' # decimalNat (nat (- i)) else decimalNat (nat i))"

definition Complete ::
  "('c, 'k, 'x) workflowContext \<Rightarrow> bytes \<Rightarrow> Error option \<Rightarrow> 'x \<Rightarrow> 'x" where
  "Complete w res err x = completeHandler w res err x"

definition GenerateActivityID ::
  "('c, 'k, 'x) workflowContext \<Rightarrow> string \<times> ('c, 'k, 'x) workflowContext" where
  "GenerateActivityID w =
     (let activityID = counterID w
      in (decimal (sint activityID), w\<lparr>counterID := counterID w + 1\<rparr>))"

definition SwapExecuteDecisions ::
  "Decision list \<Rightarrow> ('c, 'k, 'x) workflowContext \<Rightarrow>
   Decision list \<times> ('c, 'k, 'x) workflowContext" where
  "SwapExecuteDecisions decisions w =
     (let oldDecisions = executeDecisions w
      in (oldDecisions, w\<lparr>executeDecisions := decisions\<rparr>))"

definition CreateNewDecision :: "DecisionType \<Rightarrow> Decision" where
  "CreateNewDecision decisionType =
     \<lparr>DecisionType = Some decisionType, ScheduleActivityTaskAttributes = None\<rparr>"

text \<open>
  \<^verbatim>\<open>ExecuteActivity\<close> in its three steps: the activity id, generated when the request
  has none; the attributes of the decision, field by field; and the decision appended
  to the pending ones, with the callback registered under the activity id.
\<close>

definition assignActivityId ::
  "ExecuteActivityParameters \<Rightarrow> ('c, 'k, 'x) workflowContext \<Rightarrow>
   string option \<times> ('c, 'k, 'x) workflowContext" where
  "assignActivityId parameters w =
     (case ActivityID parameters of
        None \<Rightarrow> (case GenerateActivityID w of (s, w') \<Rightarrow> (Some s, w'))
      | Some a \<Rightarrow> (Some a, w))"

definition scheduleTaskAttr ::
  "string option \<Rightarrow> ExecuteActivityParameters \<Rightarrow> ScheduleActivityTaskDecisionAttributes" where
  "scheduleTaskAttr activityId parameters =
     \<lparr>attr_ActivityId = activityId,
      attr_ActivityType = Some (ActivityType parameters),
      attr_TaskList = Some \<lparr>tl_Name = Some (TaskListName parameters)\<rparr>,
      attr_Input = Input parameters,
      attr_ScheduleToCloseTimeoutSeconds = Some (ScheduleToCloseTimeoutSeconds parameters),
      attr_StartToCloseTimeoutSeconds = Some (StartToCloseTimeoutSeconds parameters),
      attr_ScheduleToStartTimeoutSeconds = Some (ScheduleToStartTimeoutSeconds parameters)\<rparr>"

definition ExecuteActivity ::
  "ExecuteActivityParameters \<Rightarrow> 'k ResultHandler option \<Rightarrow>
   ('c, 'k, 'x) workflowContext \<Rightarrow> ('c, 'k, 'x) workflowContext" where
  "ExecuteActivity parameters callback w =
     (case assignActivityId parameters w of
        (activityId, w1) \<Rightarrow>
          (let attr = scheduleTaskAttr activityId parameters;
               decision = (CreateNewDecision DecisionType_ScheduleActivityTask)
                            \<lparr>ScheduleActivityTaskAttributes := Some attr\<rparr>
           in w1\<lparr>executeDecisions := executeDecisions w1 @ [decision],
                 scheduledActivites := (scheduledActivites w1)(GetActivityId attr \<mapsto> callback)\<rparr>))"

section \<open>The workflow definition adapter\<close>

text \<open>
  The synchronous \<^verbatim>\<open>ExecuteActivity\<close> of a \<^verbatim>\<open>contextImpl\<close>, seen from the workflow
  context: the call \<^verbatim>\<open>c.wc.ExecuteActivity(parameters, callback)\<close>, where the callback
  closes over the context \<open>i\<close> and the channel \<open>k\<close>. The channel and the blocking
  \<^verbatim>\<open>Recv\<close> belong to the coroutine.
\<close>

definition contextImpl_ExecuteActivity ::
  "nat \<Rightarrow> ('c, 'k, 'x) workflowContext \<Rightarrow> ExecuteActivityParameters \<times> 'k \<Rightarrow>
   ('c, 'k, 'x) workflowContext" where
  "contextImpl_ExecuteActivity i w call =
     (case call of (parameters, k) \<Rightarrow> ExecuteActivity parameters (Some (activityCallback i k)) w)"

text \<open>
  The first line of \<^verbatim>\<open>executeDispatcher\<close>: the pump, with what the coroutines did
  while they ran. Each synchronous \<^verbatim>\<open>ExecuteActivity\<close> reaches the workflow context,
  and the root function, when it returns, writes the result slot. A callback always
  refers to a context that \<^verbatim>\<open>Execute\<close> allocated; the first test makes the model
  total.
\<close>

definition pump ::
  "nat \<Rightarrow> ('c, 'k, 'x) workflowExecutionEventHandler \<Rightarrow>
   PanicError option outcome \<times> ('c, 'k, 'x) workflowExecutionEventHandler" where
  "pump i h =
     (if length (contexts h) \<le> i then (Panics NilPointerDereference, h)
      else (case ExecuteUntilAllBlocked (dispatcher (contexts h ! i)) of
              Panics g \<Rightarrow> (Panics g, h)
            | Returns (p, d) \<Rightarrow>
                (Returns (panicked p),
                 h\<lparr>wc := foldl (contextImpl_ExecuteActivity i) (wc h) (scheduled p),
                   contexts := (contexts h)
                     [i := \<lparr>dispatcher = d,
                            result = (case returned p of
                                        None \<Rightarrow> result (contexts h ! i)
                                      | Some (r, e) \<Rightarrow>
                                          Some \<lparr>result_workflowResult = r,
                                                result_error = e\<rparr>)\<rparr>]\<rparr>)))"

text \<open>\<^verbatim>\<open>c.wc.Complete(result, err)\<close> followed by \<^verbatim>\<open>c.dispatcher.Close()\<close>.\<close>

definition completeAndClose ::
  "nat \<Rightarrow> bytes \<Rightarrow> Error option \<Rightarrow> ('c, 'k, 'x) workflowExecutionEventHandler \<Rightarrow>
   ('c, 'k, 'x) workflowExecutionEventHandler" where
  "completeAndClose i res err h =
     h\<lparr>outside := Complete (wc h) res err (outside h),
       contexts := (contexts h)
         [i := (contexts h ! i)\<lparr>dispatcher := Close (dispatcher (contexts h ! i))\<rparr>]\<rparr>"

definition executeDispatcher ::
  "nat \<Rightarrow> ('c, 'k, 'x) workflowExecutionEventHandler \<Rightarrow>
   unit outcome \<times> ('c, 'k, 'x) workflowExecutionEventHandler" where
  "executeDispatcher i h =
     (case pump i h of
        (Panics g, h1) \<Rightarrow> (Panics g, h1)
      | (Returns (Some panicErr), h1) \<Rightarrow>
          (Returns (),
           completeAndClose i None
             (Some (NewError (panic_Error panicErr) (Some (panic_StackTrace panicErr)))) h1)
      | (Returns None, h1) \<Rightarrow>
          (case result (contexts h1 ! i) of
             None \<Rightarrow> (Returns (), h1)
           | Some r \<Rightarrow>
               (Returns (),
                completeAndClose i (result_workflowResult r) (result_error r) h1)))"

text \<open>
  \<^verbatim>\<open>workflowDefinition.Execute\<close>: a new result slot and a new dispatcher, then the
  pump. The copy of the dispatcher that the definition keeps for \<^verbatim>\<open>StackTrace\<close> is
  left out.
\<close>

definition Execute ::
  "('c, 'k) Workflow \<Rightarrow> bytes \<Rightarrow> ('c, 'k, 'x) workflowExecutionEventHandler \<Rightarrow>
   unit outcome \<times> ('c, 'k, 'x) workflowExecutionEventHandler" where
  "Execute w input h =
     executeDispatcher (length (contexts h))
       (h\<lparr>contexts := contexts h @ [\<lparr>dispatcher = NewDispatcher w input, result = None\<rparr>]\<rparr>)"

text \<open>
  The callback of the synchronous \<^verbatim>\<open>ExecuteActivity\<close>, applied to a result: it stores
  the result and the error in the waiting frame, sends on the channel, panics with
  \<^verbatim>\<open>"unexpected"\<close> when the send is not accepted, and pumps the dispatcher.
\<close>

definition invokeCallback ::
  "'k ResultHandler \<Rightarrow> bytes \<Rightarrow> Error option \<Rightarrow>
   ('c, 'k, 'x) workflowExecutionEventHandler \<Rightarrow>
   unit outcome \<times> ('c, 'k, 'x) workflowExecutionEventHandler" where
  "invokeCallback cb r e h =
     (case cb of
        activityCallback i k \<Rightarrow>
          (if length (contexts h) \<le> i then (Panics NilPointerDereference, h)
           else
             (let c = contexts h ! i;
                  d = dispatcher c;
                  s1 = setResult (program d) k r (coroutines d);
                  s2 = (case e of None \<Rightarrow> s1 | Some e' \<Rightarrow> setErr (program d) k e' s1)
              in (case SendAsync (program d) k s2 of
                    (ok, s3) \<Rightarrow>
                      (let h1 = h\<lparr>contexts := (contexts h)
                                   [i := c\<lparr>dispatcher := d\<lparr>coroutines := s3\<rparr>\<rparr>]\<rparr>
                       in if \<not> ok then (Panics Unexpected, h1)
                          else executeDispatcher i h1)))))"

section \<open>The event handler\<close>

datatype terminalAttributes =
    CompletedAttributes ActivityTaskCompletedEventAttributes
  | FailedAttributes ActivityTaskFailedEventAttributes
  | TimedOutAttributes ActivityTaskTimedOutEventAttributes

text \<open>The errors that \<^verbatim>\<open>ProcessEvent\<close> returns, with the values their messages print.\<close>

datatype processingError =
    NilEventProvided
  | MissingEventHandler HistoryEvent
  | UnableToFindActivityID terminalAttributes
  | UnableToFindCallbackHandler terminalAttributes string
  | FactoryError Error

type_synonym processed = "(Decision list option \<times> processingError option) outcome"

text \<open>\<^verbatim>\<open>return weh.SwapExecuteDecisions([]*m.Decision{}), nil\<close>.\<close>

definition drain ::
  "('c, 'k, 'x) workflowExecutionEventHandler \<Rightarrow>
   processed \<times> ('c, 'k, 'x) workflowExecutionEventHandler" where
  "drain h =
     (case SwapExecuteDecisions [] (wc h) of
        (old, w) \<Rightarrow> (Returns (Some old, None), h\<lparr>wc := w\<rparr>))"

definition thenDrain ::
  "unit outcome \<times> ('c, 'k, 'x) workflowExecutionEventHandler \<Rightarrow>
   processed \<times> ('c, 'k, 'x) workflowExecutionEventHandler" where
  "thenDrain r =
     (case r of
        (Panics g, h) \<Rightarrow> (Panics g, h)
      | (Returns u, h) \<Rightarrow> drain h)"

text \<open>
  A nil attribute record is a nil pointer dereference: \<^verbatim>\<open>attributes.Input\<close> and
  \<^verbatim>\<open>*attributes.Reason\<close> read through the pointer, and so do the generated getters.
\<close>

definition handleWorkflowExecutionStarted ::
  "WorkflowExecutionStartedEventAttributes option \<Rightarrow>
   ('c, 'k, 'x) workflowExecutionEventHandler \<Rightarrow>
   processed \<times> ('c, 'k, 'x) workflowExecutionEventHandler" where
  "handleWorkflowExecutionStarted attributes h =
     (case workflowDefinitionFactory (wc h) (workflowType (workflowInfo (wc h))) of
        (definition, err) \<Rightarrow>
          (let h1 = h\<lparr>workflowDefinition := definition\<rparr>
           in (case err of
                 Some e \<Rightarrow> (Returns (None, Some (FactoryError e)), h1)
               | None \<Rightarrow>
                   (case definition of
                      None \<Rightarrow> (Panics NilPointerDereference, h1)
                    | Some w \<Rightarrow>
                        (case attributes of
                           None \<Rightarrow> (Panics NilPointerDereference, h1)
                         | Some a \<Rightarrow> thenDrain (Execute w (started_Input a) h1))))))"

definition handleActivityTaskCompleted ::
  "ActivityTaskCompletedEventAttributes option \<Rightarrow>
   ('c, 'k, 'x) workflowExecutionEventHandler \<Rightarrow>
   processed \<times> ('c, 'k, 'x) workflowExecutionEventHandler" where
  "handleActivityTaskCompleted attributes h =
     (case attributes of
        None \<Rightarrow> (Panics NilPointerDereference, h)
      | Some a \<Rightarrow>
          (case scheduledEventIDToActivityID (wc h)
                  (GetScheduledEventId (completed_ScheduledEventId a)) of
             None \<Rightarrow> (Returns (None, Some (UnableToFindActivityID (CompletedAttributes a))), h)
           | Some activityID \<Rightarrow>
               (case scheduledActivites (wc h) activityID of
                  None \<Rightarrow>
                    (Returns (None, Some (UnableToFindCallbackHandler
                                            (CompletedAttributes a) activityID)), h)
                | Some None \<Rightarrow> drain h
                | Some (Some handler) \<Rightarrow>
                    thenDrain (invokeCallback handler (completed_Result a) None h))))"

definition handleActivityTaskFailed ::
  "ActivityTaskFailedEventAttributes option \<Rightarrow>
   ('c, 'k, 'x) workflowExecutionEventHandler \<Rightarrow>
   processed \<times> ('c, 'k, 'x) workflowExecutionEventHandler" where
  "handleActivityTaskFailed attributes h =
     (case attributes of
        None \<Rightarrow> (Panics NilPointerDereference, h)
      | Some a \<Rightarrow>
          (case scheduledEventIDToActivityID (wc h)
                  (GetScheduledEventId (failed_ScheduledEventId a)) of
             None \<Rightarrow> (Returns (None, Some (UnableToFindActivityID (FailedAttributes a))), h)
           | Some activityID \<Rightarrow>
               (case scheduledActivites (wc h) activityID of
                  None \<Rightarrow>
                    (Returns (None, Some (UnableToFindCallbackHandler
                                            (FailedAttributes a) activityID)), h)
                | Some None \<Rightarrow> drain h
                | Some (Some handler) \<Rightarrow>
                    (case failed_Reason a of
                       None \<Rightarrow> (Panics NilPointerDereference, h)
                     | Some reason \<Rightarrow>
                         thenDrain
                           (invokeCallback handler None
                              (Some (ActivityTaskFailedError reason (failed_Details a))) h)))))"

definition handleActivityTaskTimedOut ::
  "ActivityTaskTimedOutEventAttributes option \<Rightarrow>
   ('c, 'k, 'x) workflowExecutionEventHandler \<Rightarrow>
   processed \<times> ('c, 'k, 'x) workflowExecutionEventHandler" where
  "handleActivityTaskTimedOut attributes h =
     (case attributes of
        None \<Rightarrow> (Panics NilPointerDereference, h)
      | Some a \<Rightarrow>
          (case scheduledEventIDToActivityID (wc h)
                  (GetScheduledEventId (timedOut_ScheduledEventId a)) of
             None \<Rightarrow> (Returns (None, Some (UnableToFindActivityID (TimedOutAttributes a))), h)
           | Some activityID \<Rightarrow>
               (case scheduledActivites (wc h) activityID of
                  None \<Rightarrow>
                    (Returns (None, Some (UnableToFindCallbackHandler
                                            (TimedOutAttributes a) activityID)), h)
                | Some None \<Rightarrow> drain h
                | Some (Some handler) \<Rightarrow>
                    thenDrain
                      (invokeCallback handler None
                         (Some (ActivityTaskTimeoutError (GetTimeoutType a))) h))))"

definition recordScheduled ::
  "HistoryEvent \<Rightarrow> ('c, 'k, 'x) workflowExecutionEventHandler \<Rightarrow>
   processed \<times> ('c, 'k, 'x) workflowExecutionEventHandler" where
  "recordScheduled event h =
     (case ActivityTaskScheduledAttributes event of
        None \<Rightarrow> (Panics NilPointerDereference, h)
      | Some attributes \<Rightarrow>
          (Returns (None, None),
           h\<lparr>wc := (wc h)\<lparr>scheduledEventIDToActivityID :=
                  (scheduledEventIDToActivityID (wc h))
                    (GetEventId event \<mapsto> GetScheduledActivityId attributes)\<rparr>\<rparr>))"

definition ProcessEvent ::
  "HistoryEvent option \<Rightarrow> ('c, 'k, 'x) workflowExecutionEventHandler \<Rightarrow>
   processed \<times> ('c, 'k, 'x) workflowExecutionEventHandler" where
  "ProcessEvent ev h =
     (case ev of
        None \<Rightarrow> (Returns (None, Some NilEventProvided), h)
      | Some event \<Rightarrow>
          (case GetEventType event of
             EventType_WorkflowExecutionStarted \<Rightarrow>
               handleWorkflowExecutionStarted (WorkflowExecutionStartedAttributes event) h
           | EventType_WorkflowExecutionCompleted \<Rightarrow> (Returns (None, None), h)
           | EventType_WorkflowExecutionFailed \<Rightarrow> (Returns (None, None), h)
           | EventType_WorkflowExecutionTimedOut \<Rightarrow> (Returns (None, None), h)
           | EventType_DecisionTaskScheduled \<Rightarrow> (Returns (None, None), h)
           | EventType_DecisionTaskStarted \<Rightarrow> (Returns (None, None), h)
           | EventType_DecisionTaskTimedOut \<Rightarrow> (Returns (None, None), h)
           | EventType_DecisionTaskCompleted \<Rightarrow> (Returns (None, None), h)
           | EventType_ActivityTaskScheduled \<Rightarrow> recordScheduled event h
           | EventType_ActivityTaskStarted \<Rightarrow> (Returns (None, None), h)
           | EventType_ActivityTaskCompleted \<Rightarrow>
               handleActivityTaskCompleted (ActivityTaskCompletedAttributes event) h
           | EventType_ActivityTaskFailed \<Rightarrow>
               handleActivityTaskFailed (ActivityTaskFailedAttributes event) h
           | EventType_ActivityTaskTimedOut \<Rightarrow>
               handleActivityTaskTimedOut (ActivityTaskTimedOutAttributes event) h
           | EventType_TimerStarted \<Rightarrow> (Returns (None, None), h)
           | EventType_TimerFired \<Rightarrow> (Returns (None, None), h)
           | EventType_Unlisted n \<Rightarrow> (Returns (None, Some (MissingEventHandler event)), h)))"

text \<open>
  A history fed to one handler, event by event: what each \<^verbatim>\<open>ProcessEvent\<close> gave, and
  the handler at the end. After a panic the handler is as the panic left it.
\<close>

fun processEvents ::
  "('c, 'k, 'x) workflowExecutionEventHandler \<Rightarrow> HistoryEvent option list \<Rightarrow>
   processed list \<times> ('c, 'k, 'x) workflowExecutionEventHandler" where
  "processEvents h [] = ([], h)"
| "processEvents h (e # es) =
     (case ProcessEvent e h of
        (r, h1) \<Rightarrow> (case processEvents h1 es of (rs, h2) \<Rightarrow> (r # rs, h2)))"

section \<open>Histories, observers and example workflows\<close>

text \<open>Successive calls of \<^verbatim>\<open>GenerateActivityID\<close> on one workflow context.\<close>

fun generateActivityIDs ::
  "nat \<Rightarrow> ('c, 'k, 'x) workflowContext \<Rightarrow> string list \<times> ('c, 'k, 'x) workflowContext" where
  "generateActivityIDs 0 w = ([], w)"
| "generateActivityIDs (Suc n) w =
     (case GenerateActivityID w of
        (s, w1) \<Rightarrow> (case generateActivityIDs n w1 of (ss, w2) \<Rightarrow> (s # ss, w2)))"


text \<open>Events of a history, by kind.\<close>

definition event :: "EventType \<Rightarrow> HistoryEvent" where
  "event t =
     \<lparr>EventId = None, EventType = t,
      WorkflowExecutionStartedAttributes = None,
      ActivityTaskScheduledAttributes = None,
      ActivityTaskCompletedAttributes = None,
      ActivityTaskFailedAttributes = None,
      ActivityTaskTimedOutAttributes = None\<rparr>"

definition startedEvent :: "bytes \<Rightarrow> HistoryEvent" where
  "startedEvent input =
     (event EventType_WorkflowExecutionStarted)
       \<lparr>WorkflowExecutionStartedAttributes := Some \<lparr>started_Input = input\<rparr>\<rparr>"

definition scheduledEvent :: "64 word \<Rightarrow> string \<Rightarrow> HistoryEvent" where
  "scheduledEvent eventId activityId =
     (event EventType_ActivityTaskScheduled)
       \<lparr>EventId := Some eventId,
        ActivityTaskScheduledAttributes := Some \<lparr>scheduled_ActivityId = Some activityId\<rparr>\<rparr>"

definition completedEvent :: "ActivityTaskCompletedEventAttributes \<Rightarrow> HistoryEvent" where
  "completedEvent a =
     (event EventType_ActivityTaskCompleted)\<lparr>ActivityTaskCompletedAttributes := Some a\<rparr>"

definition failedEvent :: "ActivityTaskFailedEventAttributes \<Rightarrow> HistoryEvent" where
  "failedEvent a =
     (event EventType_ActivityTaskFailed)\<lparr>ActivityTaskFailedAttributes := Some a\<rparr>"

definition timedOutEvent :: "ActivityTaskTimedOutEventAttributes \<Rightarrow> HistoryEvent" where
  "timedOutEvent a =
     (event EventType_ActivityTaskTimedOut)\<lparr>ActivityTaskTimedOutAttributes := Some a\<rparr>"

definition isStarted :: "HistoryEvent option \<Rightarrow> bool" where
  "isStarted ev =
     (case ev of
        None \<Rightarrow> False
      | Some e \<Rightarrow> GetEventType e = EventType_WorkflowExecutionStarted)"

text \<open>An \<^verbatim>\<open>ActivityTaskScheduled\<close> event that carries the event id \<open>E\<close>.\<close>

definition schedules :: "64 word \<Rightarrow> HistoryEvent option \<Rightarrow> bool" where
  "schedules E ev =
     (case ev of
        None \<Rightarrow> False
      | Some e \<Rightarrow> GetEventType e = EventType_ActivityTaskScheduled \<and> GetEventId e = E)"

text \<open>
  A terminal activity event \<open>t\<close> with the attributes \<open>a\<close>, which carry the scheduled
  event id \<open>E\<close>.
\<close>

definition completedFor ::
  "64 word \<Rightarrow> HistoryEvent \<Rightarrow> ActivityTaskCompletedEventAttributes \<Rightarrow> bool" where
  "completedFor E t a \<longleftrightarrow>
     GetEventType t = EventType_ActivityTaskCompleted \<and>
     ActivityTaskCompletedAttributes t = Some a \<and>
     GetScheduledEventId (completed_ScheduledEventId a) = E"

definition failedFor ::
  "64 word \<Rightarrow> HistoryEvent \<Rightarrow> ActivityTaskFailedEventAttributes \<Rightarrow> bool" where
  "failedFor E t a \<longleftrightarrow>
     GetEventType t = EventType_ActivityTaskFailed \<and>
     ActivityTaskFailedAttributes t = Some a \<and>
     GetScheduledEventId (failed_ScheduledEventId a) = E"

definition timedOutFor ::
  "64 word \<Rightarrow> HistoryEvent \<Rightarrow> ActivityTaskTimedOutEventAttributes \<Rightarrow> bool" where
  "timedOutFor E t a \<longleftrightarrow>
     GetEventType t = EventType_ActivityTaskTimedOut \<and>
     ActivityTaskTimedOutAttributes t = Some a \<and>
     GetScheduledEventId (timedOut_ScheduledEventId a) = E"

text \<open>
  A completion handler that records its calls, and one that ignores them.
\<close>

definition recordCompletion ::
  "bytes \<Rightarrow> Error option \<Rightarrow> (bytes \<times> Error option) list \<Rightarrow> (bytes \<times> Error option) list" where
  "recordCompletion res err calls = calls @ [(res, err)]"

definition ignoreCompletion :: "bytes \<Rightarrow> Error option \<Rightarrow> unit \<Rightarrow> unit" where
  "ignoreCompletion res err u = u"

text \<open>The number of dispatchers that have been closed.\<close>

definition closedCount :: "('c, 'k) contextImpl list \<Rightarrow> nat" where
  "closedCount cs = length (filter (\<lambda>c. closed (dispatcher c)) cs)"

subsection \<open>Example workflows\<close>

definition exampleInfo :: WorkflowInfo where
  "exampleInfo =
     \<lparr>workflowExecution = \<lparr>we_WorkflowId = Some ''order-17'', we_RunId = Some ''run-1''\<rparr>,
      workflowType = \<lparr>wt_Name = Some ''Order''\<rparr>,
      taskListName = ''orders''\<rparr>"

definition exampleRequest :: ExecuteActivityParameters where
  "exampleRequest =
     \<lparr>ActivityID = None,
      ActivityType = \<lparr>at_Name = Some ''Foo''\<rparr>,
      TaskListName = ''orders'',
      Input = Some ''x'',
      ScheduleToCloseTimeoutSeconds = 60,
      ScheduleToStartTimeoutSeconds = 10,
      StartToCloseTimeoutSeconds = 50,
      HeartbeatTimeoutSeconds = 30\<rparr>"

text \<open>A workflow whose root function returns \<^verbatim>\<open>("done", nil)\<close> at once.\<close>

definition returnsAtOnce :: "(bool, unit) Workflow" where
  "returnsAtOnce =
     \<lparr>root = (\<lambda>input. True),
      advance = (\<lambda>ready.
        (if ready
         then \<lparr>panicked = None, scheduled = [], returned = Some (Some ''done'', None)\<rparr>
         else nothingPumped, False)),
      setResult = (\<lambda>k r c. c),
      setErr = (\<lambda>k e c. c),
      SendAsync = (\<lambda>k c. (False, c))\<rparr>"

text \<open>A workflow whose root function panics with the message \<^verbatim>\<open>nope\<close>.\<close>

definition panicsAtOnce :: "(bool, unit) Workflow" where
  "panicsAtOnce =
     \<lparr>root = (\<lambda>input. True),
      advance = (\<lambda>ready.
        (if ready
         then \<lparr>panicked = Some \<lparr>panic_Error = ''nope'', panic_StackTrace = ''root''\<rparr>,
               scheduled = [], returned = None\<rparr>
         else nothingPumped, False)),
      setResult = (\<lambda>k r c. c),
      setErr = (\<lambda>k e c. c),
      SendAsync = (\<lambda>k c. (False, c))\<rparr>"

text \<open>
  A workflow that calls \<^verbatim>\<open>ExecuteActivity\<close> once, with its input, and returns what
  the activity gave. The root function is ready to run, or waits on the channel with
  its \<^verbatim>\<open>result\<close> and \<^verbatim>\<open>err\<close> variables and the channel's buffer, or has returned.
\<close>

datatype oneActivityState =
    Ready bytes
  | Waiting bytes "Error option" bool
  | Finished

definition oneActivity :: "(oneActivityState, unit) Workflow" where
  "oneActivity =
     \<lparr>root = Ready,
      advance = (\<lambda>c.
        (case c of
           Ready input \<Rightarrow>
             (\<lparr>panicked = None,
               scheduled = [(exampleRequest\<lparr>Input := input\<rparr>, ())],
               returned = None\<rparr>, Waiting None None False)
         | Waiting r e sent \<Rightarrow>
             (if sent then (\<lparr>panicked = None, scheduled = [], returned = Some (r, e)\<rparr>, Finished)
              else (nothingPumped, c))
         | Finished \<Rightarrow> (nothingPumped, c))),
      setResult = (\<lambda>k r c. (case c of Waiting r0 e sent \<Rightarrow> Waiting r e sent | _ \<Rightarrow> c)),
      setErr = (\<lambda>k e c. (case c of Waiting r e0 sent \<Rightarrow> Waiting r (Some e) sent | _ \<Rightarrow> c)),
      SendAsync = (\<lambda>k c.
        (case c of
           Waiting r e sent \<Rightarrow> (if sent then (False, c) else (True, Waiting r e True))
         | _ \<Rightarrow> (False, c)))\<rparr>"

definition exampleFactory ::
  "('c, 'k) Workflow \<Rightarrow> WorkflowType \<Rightarrow> ('c, 'k) Workflow option \<times> Error option" where
  "exampleFactory w t = (Some w, None)"

definition exampleContext :: "(bool, unit, unit) workflowContext" where
  "exampleContext =
     wc (newWorkflowExecutionEventHandler exampleInfo (exampleFactory returnsAtOnce)
           ignoreCompletion ())"

text \<open>
  The handler of the example workflow after \<^verbatim>\<open>WorkflowExecutionStarted\<close> with the input
  \<^verbatim>\<open>x\<close>, and then after \<^verbatim>\<open>ActivityTaskScheduled\<close> with the event id 5 and the
  activity id \<^verbatim>\<open>0\<close>: the workflow waits for its activity.
\<close>

definition startedHandler ::
  "(oneActivityState, unit, (bytes \<times> Error option) list) workflowExecutionEventHandler" where
  "startedHandler =
     snd (processEvents
       (newWorkflowExecutionEventHandler exampleInfo (exampleFactory oneActivity)
          recordCompletion [])
       [Some (startedEvent (Some ''x''))])"

definition waitingHandler ::
  "(oneActivityState, unit, (bytes \<times> Error option) list) workflowExecutionEventHandler" where
  "waitingHandler = snd (processEvents startedHandler [Some (scheduledEvent 5 ''0'')])"

text \<open>A handler whose one dispatcher holds the workflow that panics, ready to run.\<close>

definition panickingHandler ::
  "(bool, unit, (bytes \<times> Error option) list) workflowExecutionEventHandler" where
  "panickingHandler =
     (newWorkflowExecutionEventHandler exampleInfo (exampleFactory panicsAtOnce)
        recordCompletion [])
       \<lparr>contexts := [\<lparr>dispatcher = NewDispatcher panicsAtOnce None, result = None\<rparr>]\<rparr>"

section \<open>Properties\<close>

declare decimalNat.simps [simp del]

subsection \<open>The activity id counter\<close>

lemma sint_small:
  fixes c :: "32 word"
  assumes "unat c < 2 ^ 31"
  shows "sint c = int (unat c)"
proof -
  have "int (unat c) < int (2 ^ 31)" using assms by (simp only: of_nat_less_iff)
  then have "uint c < 2 ^ 31" by simp
  moreover have "- (2 ^ 31) \<le> uint c"
    by (rule order_trans [of _ 0]) simp_all
  ultimately have "signed_take_bit 31 (uint c) = uint c"
    by (rule signed_take_bit_int_eq_self [rotated])
  then show ?thesis by (simp add: sint_uint)
qed

lemma unat_succ:
  fixes c :: "32 word"
  assumes "unat c < 2 ^ 31"
  shows "unat (c + 1) = Suc (unat c)"
proof -
  have "unat c + unat (1 :: 32 word) < 2 ^ LENGTH(32)" using assms by simp
  then have "unat (c + 1) = unat c + unat (1 :: 32 word)"
    by (simp only: unat_add_lem)
  then show ?thesis by simp
qed

lemma generateActivityIDs_from:
  "unat (counterID w) + n \<le> 2 ^ 31 \<Longrightarrow>
   fst (generateActivityIDs n w) = map (\<lambda>k. decimal (int (unat (counterID w) + k))) [0..<n]"
proof (induction n arbitrary: w)
  case 0
  then show ?case by simp
next
  case (Suc n)
  have small: "unat (counterID w) < 2 ^ 31" using Suc.prems by simp
  let ?w1 = "w\<lparr>counterID := counterID w + 1\<rparr>"
  have c1: "unat (counterID ?w1) = Suc (unat (counterID w))"
    using small by (simp add: unat_succ)
  have "fst (generateActivityIDs n ?w1) =
        map (\<lambda>k. decimal (int (unat (counterID ?w1) + k))) [0..<n]"
    using Suc.prems c1 by (intro Suc.IH) simp
  then have tl: "fst (generateActivityIDs n ?w1) =
        map (\<lambda>k. decimal (int (unat (counterID w) + Suc k))) [0..<n]"
    by (simp only: c1 add_Suc add_Suc_right)
  have upt: "[0..<Suc n] = 0 # map Suc [0..<n]"
    by (simp add: upt_conv_Cons map_Suc_upt del: upt_Suc)
  have hd: "fst (GenerateActivityID w) = decimal (int (unat (counterID w)))"
    using small by (simp add: GenerateActivityID_def sint_small)
  have snd: "snd (GenerateActivityID w) = ?w1"
    by (simp add: GenerateActivityID_def)
  have "fst (generateActivityIDs (Suc n) w) =
        fst (GenerateActivityID w) # fst (generateActivityIDs n (snd (GenerateActivityID w)))"
    by (simp add: split_beta)
  also have "\<dots> = decimal (int (unat (counterID w))) #
        map (\<lambda>k. decimal (int (unat (counterID w) + Suc k))) [0..<n]"
    by (simp only: hd snd tl)
  also have "\<dots> = map (\<lambda>k. decimal (int (unat (counterID w) + k))) [0..<Suc n]"
    by (simp only: upt list.map map_map comp_def) simp
  finally show ?case .
qed

text \<open>
  Claim C8, as amended. Each call of \<^verbatim>\<open>GenerateActivityID\<close> returns the decimal form
  of the current counter, read as a signed 32-bit integer, and adds one to the counter;
  on a context whose counter is zero, the first \<open>n\<close> generated ids are the decimal
  forms of \<open>0, 1, \<dots>, n - 1\<close>, for every \<open>n\<close> up to \<open>2\<^sup>3\<^sup>1\<close>. The ids are a function of
  the context alone, so a replay generates the same ids.
\<close>

theorem generated_ids_count_up:
  "GenerateActivityID w = (decimal (sint (counterID w)), w\<lparr>counterID := counterID w + 1\<rparr>) \<and>
   (counterID w = 0 \<and> n \<le> 2 ^ 31 \<longrightarrow>
      fst (generateActivityIDs n w) = map (\<lambda>k. decimal (int k)) [0..<n])"
proof (intro conjI impI)
  show "GenerateActivityID w = (decimal (sint (counterID w)), w\<lparr>counterID := counterID w + 1\<rparr>)"
    by (simp add: GenerateActivityID_def)
next
  assume a: "counterID w = 0 \<and> n \<le> 2 ^ 31"
  then have "unat (counterID w) + n \<le> 2 ^ 31" by simp
  from generateActivityIDs_from [OF this] a
  show "fst (generateActivityIDs n w) = map (\<lambda>k. decimal (int k)) [0..<n]" by simp
qed

theorem generated_ids_count_up_witness:
  "counterID exampleContext = 0 \<and> (3 :: nat) \<le> 2 ^ 31 \<and>
   fst (generateActivityIDs 3 exampleContext) = [''0'', ''1'', ''2'']"
proof -
  have c: "counterID exampleContext = 0"
    by (simp add: exampleContext_def newWorkflowExecutionEventHandler_def)
  have "map (\<lambda>k. decimal (int k)) [0..<3] = [''0'', ''1'', ''2'']"
    by (simp add: numeral_3_eq_3 decimal_def decimalNat.simps digit_def)
  with generated_ids_count_up [of exampleContext 3] c show ?thesis by simp
qed

text \<open>
  The counter is a signed 32-bit integer. On a context whose counter is \<open>2\<^sup>3\<^sup>1 - 1\<close> the
  generated id is \<^verbatim>\<open>2147483647\<close> and the next one is \<^verbatim>\<open>-2147483648\<close>: the ids do not
  increase without end.
\<close>

theorem activity_id_counter_wraps:
  "fst (GenerateActivityID (exampleContext\<lparr>counterID := 2147483647\<rparr>)) = ''2147483647'' \<and>
   fst (GenerateActivityID (snd (GenerateActivityID (exampleContext\<lparr>counterID := 2147483647\<rparr>))))
     = ''-2147483648''"
  by (simp add: GenerateActivityID_def decimal_def decimalNat.simps digit_def)

subsection \<open>Scheduling an activity\<close>


lemma ExecuteActivity_appends:
  "executeDecisions (ExecuteActivity p cb w) =
     executeDecisions w @
       [\<lparr>DecisionType = Some DecisionType_ScheduleActivityTask,
         ScheduleActivityTaskAttributes =
           Some (scheduleTaskAttr (fst (assignActivityId p w)) p)\<rparr>]"
  by (simp add: ExecuteActivity_def assignActivityId_def CreateNewDecision_def
      GenerateActivityID_def Let_def split: option.splits prod.splits)




text \<open>
  Claim C5. The decision that \<^verbatim>\<open>ExecuteActivity\<close> appends does not depend on the
  heartbeat timeout of the request: the field is never read. For the example request,
  whose heartbeat timeout is 30 seconds, the one pending decision carries the generated
  id, the type, the task list, the input and three timeouts.
\<close>

theorem ExecuteActivity_ignores_heartbeat:
  "ExecuteActivity (p\<lparr>HeartbeatTimeoutSeconds := t\<rparr>) cb w = ExecuteActivity p cb w \<and>
   HeartbeatTimeoutSeconds exampleRequest = 30 \<and>
   executeDecisions (ExecuteActivity exampleRequest cb exampleContext) =
     [\<lparr>DecisionType = Some DecisionType_ScheduleActivityTask,
       ScheduleActivityTaskAttributes =
         Some \<lparr>attr_ActivityId = Some ''0'',
               attr_ActivityType = Some \<lparr>at_Name = Some ''Foo''\<rparr>,
               attr_TaskList = Some \<lparr>tl_Name = Some ''orders''\<rparr>,
               attr_Input = Some ''x'',
               attr_ScheduleToCloseTimeoutSeconds = Some 60,
               attr_StartToCloseTimeoutSeconds = Some 50,
               attr_ScheduleToStartTimeoutSeconds = Some 10\<rparr>\<rparr>]"
proof (intro conjI)
  show "ExecuteActivity (p\<lparr>HeartbeatTimeoutSeconds := t\<rparr>) cb w = ExecuteActivity p cb w"
    by (simp add: ExecuteActivity_def assignActivityId_def scheduleTaskAttr_def)
  show "HeartbeatTimeoutSeconds exampleRequest = 30"
    by (simp add: exampleRequest_def)
  show "executeDecisions (ExecuteActivity exampleRequest cb exampleContext) =
     [\<lparr>DecisionType = Some DecisionType_ScheduleActivityTask,
       ScheduleActivityTaskAttributes =
         Some \<lparr>attr_ActivityId = Some ''0'',
               attr_ActivityType = Some \<lparr>at_Name = Some ''Foo''\<rparr>,
               attr_TaskList = Some \<lparr>tl_Name = Some ''orders''\<rparr>,
               attr_Input = Some ''x'',
               attr_ScheduleToCloseTimeoutSeconds = Some 60,
               attr_StartToCloseTimeoutSeconds = Some 50,
               attr_ScheduleToStartTimeoutSeconds = Some 10\<rparr>\<rparr>]"
    by (simp add: ExecuteActivity_appends assignActivityId_def scheduleTaskAttr_def
        exampleRequest_def GenerateActivityID_def exampleContext_def
        newWorkflowExecutionEventHandler_def decimal_def decimalNat.simps digit_def)
qed

subsection \<open>Events without a handler\<close>

text \<open>
  Claim C9. For the nil event \<^verbatim>\<open>ProcessEvent\<close> returns no decisions and the error
  \<^verbatim>\<open>nil event provided\<close>, and the handler is unchanged; for an event whose discriminant
  is none of the fifteen of the handling table it returns no decisions and the error
  \<^verbatim>\<open>missing event handler\<close>, and the handler is unchanged.
\<close>

theorem ProcessEvent_nil_and_unlisted:
  "ProcessEvent None h = (Returns (None, Some NilEventProvided), h) \<and>
   ProcessEvent (Some (e\<lparr>EventType := EventType_Unlisted n\<rparr>)) h =
     (Returns (None, Some (MissingEventHandler (e\<lparr>EventType := EventType_Unlisted n\<rparr>))), h)"
  by (simp add: ProcessEvent_def GetEventType_def)

subsection \<open>The example workflows, step by step\<close>

lemma panicsAtOnce_simps:
  "advance panicsAtOnce True =
     (\<lparr>panicked = Some \<lparr>panic_Error = ''nope'', panic_StackTrace = ''root''\<rparr>,
       scheduled = [], returned = None\<rparr>, False)"
  by (simp add: panicsAtOnce_def)

lemma oneActivity_simps:
  "root oneActivity = Ready"
  "advance oneActivity (Ready input) =
     (\<lparr>panicked = None, scheduled = [(exampleRequest\<lparr>Input := input\<rparr>, ())],
       returned = None\<rparr>, Waiting None None False)"
  "advance oneActivity (Waiting r e True) =
     (\<lparr>panicked = None, scheduled = [], returned = Some (r, e)\<rparr>, Finished)"
  "advance oneActivity (Waiting r e False) = (nothingPumped, Waiting r e False)"
  "advance oneActivity Finished = (nothingPumped, Finished)"
  "setResult oneActivity k r' (Waiting r e sent) = Waiting r' e sent"
  "setErr oneActivity k e' (Waiting r e sent) = Waiting r (Some e') sent"
  "SendAsync oneActivity k (Waiting r e False) = (True, Waiting r e True)"
  "SendAsync oneActivity k (Waiting r e True) = (False, Waiting r e True)"
  by (simp_all add: oneActivity_def)

lemma startedHandler_eq:
  "startedHandler =
     \<lparr>wc = \<lparr>workflowInfo = exampleInfo,
             workflowDefinitionFactory = exampleFactory oneActivity,
             scheduledActivites = [''0'' \<mapsto> Some (activityCallback 0 ())],
             scheduledEventIDToActivityID = Map.empty,
             counterID = 1,
             executeDecisions = [],
             completeHandler = recordCompletion\<rparr>,
      workflowDefinition = Some oneActivity,
      contexts = [\<lparr>dispatcher = \<lparr>program = oneActivity, coroutines = Waiting None None False,
                                  closed = False, poisoned = False\<rparr>,
                   result = None\<rparr>],
      outside = []\<rparr>"
  unfolding startedHandler_def
  by (simp add: newWorkflowExecutionEventHandler_def
      startedEvent_def event_def ProcessEvent_def GetEventType_def
      handleWorkflowExecutionStarted_def
      Execute_def executeDispatcher_def pump_def
      ExecuteUntilAllBlocked_def NewDispatcher_def thenDrain_def drain_def
      SwapExecuteDecisions_def contextImpl_ExecuteActivity_def
      ExecuteActivity_def assignActivityId_def scheduleTaskAttr_def CreateNewDecision_def
      GenerateActivityID_def GetActivityId_def decimal_def decimalNat.simps digit_def
      exampleRequest_def oneActivity_simps exampleFactory_def [abs_def] exampleInfo_def)

lemma waitingHandler_eq:
  "waitingHandler =
     \<lparr>wc = \<lparr>workflowInfo = exampleInfo,
             workflowDefinitionFactory = exampleFactory oneActivity,
             scheduledActivites = [''0'' \<mapsto> Some (activityCallback 0 ())],
             scheduledEventIDToActivityID = [5 \<mapsto> ''0''],
             counterID = 1,
             executeDecisions = [],
             completeHandler = recordCompletion\<rparr>,
      workflowDefinition = Some oneActivity,
      contexts = [\<lparr>dispatcher = \<lparr>program = oneActivity, coroutines = Waiting None None False,
                                  closed = False, poisoned = False\<rparr>,
                   result = None\<rparr>],
      outside = []\<rparr>"
  unfolding waitingHandler_def startedHandler_eq
  by (simp add: scheduledEvent_def event_def ProcessEvent_def GetEventType_def
      GetEventId_def recordScheduled_def GetScheduledActivityId_def)

subsection \<open>What a pump and a callback leave unchanged\<close>

lemma ExecuteActivity_frame:
  "workflowInfo (ExecuteActivity p cb w) = workflowInfo w"
  "workflowDefinitionFactory (ExecuteActivity p cb w) = workflowDefinitionFactory w"
  "scheduledEventIDToActivityID (ExecuteActivity p cb w) = scheduledEventIDToActivityID w"
  "completeHandler (ExecuteActivity p cb w) = completeHandler w"
  by (simp_all add: ExecuteActivity_def assignActivityId_def GenerateActivityID_def Let_def
      split: option.splits prod.splits)

lemma scheduled_frame:
  "workflowInfo (foldl (contextImpl_ExecuteActivity i) w xs) = workflowInfo w"
  "workflowDefinitionFactory (foldl (contextImpl_ExecuteActivity i) w xs) =
     workflowDefinitionFactory w"
  "scheduledEventIDToActivityID (foldl (contextImpl_ExecuteActivity i) w xs) =
     scheduledEventIDToActivityID w"
  "completeHandler (foldl (contextImpl_ExecuteActivity i) w xs) = completeHandler w"
  by (induction xs arbitrary: w; simp add: contextImpl_ExecuteActivity_def ExecuteActivity_frame
      split: prod.splits)+

lemma pump_Panics: "fst (pump i h) = Panics g \<Longrightarrow> snd (pump i h) = h"
  by (auto simp: pump_def split: if_splits outcome.splits prod.splits)

lemma pump_Returns:
  assumes "pump i h = (Returns pe, h1)"
  shows "i < length (contexts h)"
    and "\<not> closed (dispatcher (contexts h ! i))"
    and "\<not> closed (dispatcher (contexts h1 ! i))"
    and "length (contexts h1) = length (contexts h)"
    and "outside h1 = outside h"
    and "workflowDefinition h1 = workflowDefinition h"
    and "\<exists>c. contexts h1 = (contexts h)[i := c] \<and> \<not> closed (dispatcher c)"
    and "workflowInfo (wc h1) = workflowInfo (wc h)"
    and "workflowDefinitionFactory (wc h1) = workflowDefinitionFactory (wc h)"
    and "scheduledEventIDToActivityID (wc h1) = scheduledEventIDToActivityID (wc h)"
    and "completeHandler (wc h1) = completeHandler (wc h)"
  using assms
  by (auto simp: pump_def ExecuteUntilAllBlocked_def scheduled_frame
      split: if_splits outcome.splits prod.splits)


lemma executeDispatcher_Panics:
  "fst (executeDispatcher i h) = Panics g \<Longrightarrow> snd (executeDispatcher i h) = h"
proof -
  assume a: "fst (executeDispatcher i h) = Panics g"
  obtain r h1 where p: "pump i h = (r, h1)" by (cases "pump i h")
  from a p have "fst (pump i h) = Panics g"
    by (auto simp: executeDispatcher_def split: outcome.splits option.splits)
  from pump_Panics [OF this] a p show ?thesis
    by (auto simp: executeDispatcher_def split: outcome.splits option.splits)
qed

lemma completeAndClose_frame:
  "wc (completeAndClose i res err h) = wc h"
  "workflowDefinition (completeAndClose i res err h) = workflowDefinition h"
  "length (contexts (completeAndClose i res err h)) = length (contexts h)"
  by (simp_all add: completeAndClose_def)

lemma executeDispatcher_cases:
  assumes "executeDispatcher i h = (r, h1)"
  shows "h1 = h \<or>
         (\<exists>pe h0. pump i h = (Returns pe, h0) \<and>
            (h1 = h0 \<or> (\<exists>res err. h1 = completeAndClose i res err h0)))"
proof -
  obtain q h0 where p: "pump i h = (q, h0)" by (cases "pump i h")
  show ?thesis
  proof (cases q)
    case (Panics g)
    with p have "fst (pump i h) = Panics g" by simp
    from pump_Panics [OF this] p Panics assms
    show ?thesis by (simp add: executeDispatcher_def)
  next
    case (Returns pe)
    with assms p show ?thesis
      by (auto simp: executeDispatcher_def split: option.splits)
  qed
qed

lemma executeDispatcher_frame:
  assumes "executeDispatcher i h = (r, h1)"
  shows "length (contexts h1) = length (contexts h) \<and>
         workflowDefinition h1 = workflowDefinition h \<and>
         workflowInfo (wc h1) = workflowInfo (wc h) \<and>
         workflowDefinitionFactory (wc h1) = workflowDefinitionFactory (wc h) \<and>
         scheduledEventIDToActivityID (wc h1) = scheduledEventIDToActivityID (wc h) \<and>
         completeHandler (wc h1) = completeHandler (wc h)"
  using executeDispatcher_cases [OF assms]
  by (auto simp: completeAndClose_frame dest: pump_Returns(4,6,8,9,10,11))

lemma closedCount_update:
  "i < length cs \<Longrightarrow>
   closedCount (cs[i := c]) + (if closed (dispatcher (cs ! i)) then 1 else 0) =
   closedCount cs + (if closed (dispatcher c) then 1 else 0)"
proof (induction cs arbitrary: i)
  case Nil
  then show ?case by simp
next
  case (Cons a cs)
  show ?case
  proof (cases i)
    case 0
    then show ?thesis by (simp add: closedCount_def)
  next
    case (Suc j)
    with Cons.prems have "j < length cs" by simp
    from Cons.IH [OF this] Suc show ?thesis by (simp add: closedCount_def)
  qed
qed

lemma closedCount_append: "closedCount (cs @ [c]) = closedCount cs + (if closed (dispatcher c) then 1 else 0)"
  by (simp add: closedCount_def)

lemma closedCount_le: "closedCount cs \<le> length cs"
  by (simp add: closedCount_def)

lemma executeDispatcher_completions:
  assumes rec: "completeHandler (wc h) = recordCompletion"
    and run: "executeDispatcher i h = (r, h1)"
  shows "length (outside h1) + closedCount (contexts h) \<le>
         length (outside h) + closedCount (contexts h1)"
proof -
  obtain q h0 where p: "pump i h = (q, h0)" by (cases "pump i h")
  show ?thesis
  proof (cases q)
    case (Panics g)
    with p have "fst (pump i h) = Panics g" by simp
    from pump_Panics [OF this] p Panics run
    have "h1 = h" by (simp add: executeDispatcher_def)
    then show ?thesis by simp
  next
    case (Returns pe)
    note f = pump_Returns [OF p [unfolded Returns]]
    from f(7) obtain c where c: "contexts h0 = (contexts h)[i := c]" "\<not> closed (dispatcher c)"
      by blast
    from closedCount_update [OF f(1), of c] c f(2)
    have same: "closedCount (contexts h0) = closedCount (contexts h)" by simp
    have i0: "i < length (contexts h0)" using f(1) f(4) by simp
    have closing: "length (outside (completeAndClose i res err h0)) +
        closedCount (contexts h) \<le>
        length (outside h) + closedCount (contexts (completeAndClose i res err h0))"
      for res err
      using closedCount_update [OF i0, of "(contexts h0 ! i)\<lparr>dispatcher := Close (dispatcher (contexts h0 ! i))\<rparr>"]
        f(3) same rec f(5) f(11)
      by (simp add: completeAndClose_def Complete_def recordCompletion_def Close_def)
    from run p Returns
    have "h1 = h0 \<or> (\<exists>res err. h1 = completeAndClose i res err h0)"
      by (auto simp: executeDispatcher_def split: option.splits)
    then show ?thesis using closing same f(5) by auto
  qed
qed


lemma invokeCallback_cases:
  assumes "invokeCallback cb r e h = (q, h2)"
  shows "\<exists>i h1. wc h1 = wc h \<and> outside h1 = outside h \<and>
           workflowDefinition h1 = workflowDefinition h \<and>
           length (contexts h1) = length (contexts h) \<and>
           closedCount (contexts h1) = closedCount (contexts h) \<and>
           ((\<exists>g. q = Panics g \<and> h2 = h1) \<or> executeDispatcher i h1 = (q, h2))"
proof (cases cb)
  case (activityCallback i k)
  show ?thesis
  proof (cases "length (contexts h) \<le> i")
    case True
    with assms activityCallback have "q = Panics NilPointerDereference \<and> h2 = h"
      by (auto simp: invokeCallback_def)
    then show ?thesis by blast
  next
    case False
    then have i: "i < length (contexts h)" by simp
    let ?d = "dispatcher (contexts h ! i)"
    let ?s2 = "(case e of None \<Rightarrow> setResult (program ?d) k r (coroutines ?d)
                | Some e' \<Rightarrow> setErr (program ?d) k e'
                    (setResult (program ?d) k r (coroutines ?d)))"
    obtain ok s3 where sa: "SendAsync (program ?d) k ?s2 = (ok, s3)"
      by (cases "SendAsync (program ?d) k ?s2")
    let ?h1 = "h\<lparr>contexts := (contexts h)
                 [i := (contexts h ! i)\<lparr>dispatcher := ?d\<lparr>coroutines := s3\<rparr>\<rparr>]\<rparr>"
    have cc: "closedCount (contexts ?h1) = closedCount (contexts h)"
      using closedCount_update [OF i, of "(contexts h ! i)\<lparr>dispatcher := ?d\<lparr>coroutines := s3\<rparr>\<rparr>"]
      by simp
    have "(q = Panics Unexpected \<and> h2 = ?h1) \<or> executeDispatcher i ?h1 = (q, h2)"
      using assms activityCallback False sa
      by (auto simp: invokeCallback_def Let_def split: if_splits)
    moreover have "wc ?h1 = wc h" "outside ?h1 = outside h"
      "workflowDefinition ?h1 = workflowDefinition h"
      "length (contexts ?h1) = length (contexts h)"
      by simp_all
    ultimately show ?thesis using cc by blast
  qed
qed

lemma invokeCallback_Panics:
  assumes "invokeCallback cb r e h = (Panics g, h2)"
  shows "wc h2 = wc h"
proof -
  from invokeCallback_cases [OF assms] obtain i h1 where
    h1: "wc h1 = wc h" and
    c: "h2 = h1 \<or> executeDispatcher i h1 = (Panics g, h2)" by blast
  from c show ?thesis
  proof
    assume "h2 = h1" with h1 show ?thesis by simp
  next
    assume x: "executeDispatcher i h1 = (Panics g, h2)"
    then have "fst (executeDispatcher i h1) = Panics g" by simp
    from executeDispatcher_Panics [OF this] x h1 show ?thesis by simp
  qed
qed

lemma invokeCallback_frame:
  assumes "invokeCallback cb r e h = (q, h2)"
  shows "length (contexts h2) = length (contexts h) \<and>
         workflowDefinition h2 = workflowDefinition h \<and>
         workflowInfo (wc h2) = workflowInfo (wc h) \<and>
         workflowDefinitionFactory (wc h2) = workflowDefinitionFactory (wc h) \<and>
         scheduledEventIDToActivityID (wc h2) = scheduledEventIDToActivityID (wc h) \<and>
         completeHandler (wc h2) = completeHandler (wc h)"
proof -
  from invokeCallback_cases [OF assms] obtain i h1 where
    h1: "wc h1 = wc h" "workflowDefinition h1 = workflowDefinition h"
        "length (contexts h1) = length (contexts h)" and
    c: "h2 = h1 \<or> executeDispatcher i h1 = (q, h2)" by blast
  from c show ?thesis
  proof
    assume "h2 = h1" with h1 show ?thesis by simp
  next
    assume "executeDispatcher i h1 = (q, h2)"
    from executeDispatcher_frame [OF this] h1 show ?thesis by simp
  qed
qed

lemma invokeCallback_completions:
  assumes rec: "completeHandler (wc h) = recordCompletion"
    and run: "invokeCallback cb r e h = (q, h2)"
  shows "length (outside h2) + closedCount (contexts h) \<le>
         length (outside h) + closedCount (contexts h2)"
proof -
  from invokeCallback_cases [OF run] obtain i h1 where
    h1: "wc h1 = wc h" "outside h1 = outside h"
        "closedCount (contexts h1) = closedCount (contexts h)" and
    c: "h2 = h1 \<or> executeDispatcher i h1 = (q, h2)" by blast
  from c show ?thesis
  proof
    assume "h2 = h1" with h1 show ?thesis by simp
  next
    assume x: "executeDispatcher i h1 = (q, h2)"
    have "completeHandler (wc h1) = recordCompletion" using rec h1 by simp
    from executeDispatcher_completions [OF this x] h1 show ?thesis by simp
  qed
qed

lemma Execute_Panics:
  assumes "Execute w input h = (Panics g, h2)"
  shows "wc h2 = wc h"
proof -
  from assms have "fst (executeDispatcher (length (contexts h))
      (h\<lparr>contexts := contexts h @ [\<lparr>dispatcher = NewDispatcher w input, result = None\<rparr>]\<rparr>)) = Panics g"
    by (simp add: Execute_def)
  from executeDispatcher_Panics [OF this] assms show ?thesis
    by (simp add: Execute_def)
qed

lemma Execute_frame:
  assumes "Execute w input h = (q, h2)"
  shows "length (contexts h2) = Suc (length (contexts h)) \<and>
         workflowDefinition h2 = workflowDefinition h \<and>
         workflowInfo (wc h2) = workflowInfo (wc h) \<and>
         workflowDefinitionFactory (wc h2) = workflowDefinitionFactory (wc h) \<and>
         scheduledEventIDToActivityID (wc h2) = scheduledEventIDToActivityID (wc h) \<and>
         completeHandler (wc h2) = completeHandler (wc h)"
  using executeDispatcher_frame [OF assms [unfolded Execute_def]] by simp

lemma Execute_completions:
  assumes rec: "completeHandler (wc h) = recordCompletion"
    and run: "Execute w input h = (q, h2)"
  shows "length (outside h2) + closedCount (contexts h) \<le>
         length (outside h) + closedCount (contexts h2)"
proof -
  let ?h1 = "h\<lparr>contexts := contexts h @ [\<lparr>dispatcher = NewDispatcher w input, result = None\<rparr>]\<rparr>"
  have "completeHandler (wc ?h1) = recordCompletion" using rec by simp
  from executeDispatcher_completions [OF this run [unfolded Execute_def]]
  show ?thesis by (simp add: closedCount_append NewDispatcher_def)
qed


lemma handleActivityTaskCompleted_cases:
  assumes "handleActivityTaskCompleted a h = (q, h2)"
  shows "h2 = h \<or> (q, h2) = drain h \<or>
         (\<exists>cb r e. (q, h2) = thenDrain (invokeCallback cb r e h))"
  using assms
  by (auto simp: handleActivityTaskCompleted_def split: option.splits) metis+

lemma handleActivityTaskFailed_cases:
  assumes "handleActivityTaskFailed a h = (q, h2)"
  shows "h2 = h \<or> (q, h2) = drain h \<or>
         (\<exists>cb r e. (q, h2) = thenDrain (invokeCallback cb r e h))"
  using assms
  by (auto simp: handleActivityTaskFailed_def split: option.splits) metis+

lemma handleActivityTaskTimedOut_cases:
  assumes "handleActivityTaskTimedOut a h = (q, h2)"
  shows "h2 = h \<or> (q, h2) = drain h \<or>
         (\<exists>cb r e. (q, h2) = thenDrain (invokeCallback cb r e h))"
  using assms
  by (auto simp: handleActivityTaskTimedOut_def split: option.splits) metis+

lemma handleWorkflowExecutionStarted_cases:
  assumes "handleWorkflowExecutionStarted a h = (q, h2)"
  shows "(\<exists>d. h2 = h\<lparr>workflowDefinition := d\<rparr>) \<or>
         (\<exists>d w input. (q, h2) = thenDrain (Execute w input (h\<lparr>workflowDefinition := d\<rparr>)))"
  using assms
  by (auto simp: handleWorkflowExecutionStarted_def Let_def split: option.splits prod.splits)
     metis+

lemma ProcessEvent_cases:
  assumes "ProcessEvent ev h = (q, h2)"
  shows "h2 = h \<or> (q, h2) = drain h \<or>
         (\<exists>cb r e. (q, h2) = thenDrain (invokeCallback cb r e h)) \<or>
         (isStarted ev \<and>
            ((\<exists>d. h2 = h\<lparr>workflowDefinition := d\<rparr>) \<or>
             (\<exists>d w input. (q, h2) = thenDrain (Execute w input (h\<lparr>workflowDefinition := d\<rparr>))))) \<or>
         (\<exists>E A. schedules E ev \<and>
            h2 = h\<lparr>wc := (wc h)\<lparr>scheduledEventIDToActivityID :=
                   (scheduledEventIDToActivityID (wc h))(E \<mapsto> A)\<rparr>\<rparr>)"
proof (cases ev)
  case None
  with assms show ?thesis by (simp add: ProcessEvent_def)
next
  case (Some event)
  show ?thesis
  proof (cases "GetEventType event")
    case EventType_WorkflowExecutionStarted
    with assms Some
    have "handleWorkflowExecutionStarted (WorkflowExecutionStartedAttributes event) h = (q, h2)"
      by (simp add: ProcessEvent_def)
    from handleWorkflowExecutionStarted_cases [OF this] Some EventType_WorkflowExecutionStarted
    show ?thesis by (simp add: isStarted_def)
  next
    case EventType_ActivityTaskScheduled
    with assms Some have "recordScheduled event h = (q, h2)" by (simp add: ProcessEvent_def)
    then have "h2 = h \<or> (\<exists>A. h2 = h\<lparr>wc := (wc h)\<lparr>scheduledEventIDToActivityID :=
                   (scheduledEventIDToActivityID (wc h))(GetEventId event \<mapsto> A)\<rparr>\<rparr>)"
      by (auto simp: recordScheduled_def split: option.splits)
    moreover have "schedules (GetEventId event) ev"
      using Some EventType_ActivityTaskScheduled by (simp add: schedules_def)
    ultimately show ?thesis by blast
  next
    case EventType_ActivityTaskCompleted
    with assms Some
    have "handleActivityTaskCompleted (ActivityTaskCompletedAttributes event) h = (q, h2)"
      by (simp add: ProcessEvent_def)
    from handleActivityTaskCompleted_cases [OF this] show ?thesis by blast
  next
    case EventType_ActivityTaskFailed
    with assms Some
    have "handleActivityTaskFailed (ActivityTaskFailedAttributes event) h = (q, h2)"
      by (simp add: ProcessEvent_def)
    from handleActivityTaskFailed_cases [OF this] show ?thesis by blast
  next
    case EventType_ActivityTaskTimedOut
    with assms Some
    have "handleActivityTaskTimedOut (ActivityTaskTimedOutAttributes event) h = (q, h2)"
      by (simp add: ProcessEvent_def)
    from handleActivityTaskTimedOut_cases [OF this] show ?thesis by blast
  qed (use assms Some in \<open>simp_all add: ProcessEvent_def\<close>)
qed


lemma drain_eq:
  "drain h = (Returns (Some (executeDecisions (wc h)), None),
              h\<lparr>wc := (wc h)\<lparr>executeDecisions := []\<rparr>\<rparr>)"
  by (simp add: drain_def SwapExecuteDecisions_def)

lemma thenDrain_cases:
  assumes "thenDrain (q0, h1) = (q, h2)"
  shows "(\<exists>g. q0 = Panics g \<and> q = Panics g \<and> h2 = h1) \<or>
         (q0 = Returns () \<and> (q, h2) = drain h1)"
  using assms by (cases q0) (auto simp: thenDrain_def)

lemma thenDrain_invokeCallback:
  assumes "(q, h2) = thenDrain (invokeCallback cb r e h)"
  shows "length (contexts h2) = length (contexts h)"
    and "workflowInfo (wc h2) = workflowInfo (wc h)"
    and "workflowDefinitionFactory (wc h2) = workflowDefinitionFactory (wc h)"
    and "scheduledEventIDToActivityID (wc h2) = scheduledEventIDToActivityID (wc h)"
    and "completeHandler (wc h2) = completeHandler (wc h)"
    and "executeDecisions (wc h) = [] \<Longrightarrow> executeDecisions (wc h2) = []"
proof -
  obtain q0 h1 where run: "invokeCallback cb r e h = (q0, h1)"
    by (cases "invokeCallback cb r e h")
  note f = invokeCallback_frame [OF run]
  from assms run have "thenDrain (q0, h1) = (q, h2)" by simp
  from thenDrain_cases [OF this]
  have c: "(\<exists>g. q0 = Panics g \<and> h2 = h1) \<or> h2 = h1\<lparr>wc := (wc h1)\<lparr>executeDecisions := []\<rparr>\<rparr>"
    by (auto simp: drain_eq)
  from c f show "length (contexts h2) = length (contexts h)"
    and "workflowInfo (wc h2) = workflowInfo (wc h)"
    and "workflowDefinitionFactory (wc h2) = workflowDefinitionFactory (wc h)"
    and "scheduledEventIDToActivityID (wc h2) = scheduledEventIDToActivityID (wc h)"
    and "completeHandler (wc h2) = completeHandler (wc h)"
    by auto
  show "executeDecisions (wc h2) = []" if "executeDecisions (wc h) = []"
    using c that run by (auto dest: invokeCallback_Panics)
qed

lemma thenDrain_invokeCallback_completions:
  assumes "(q, h2) = thenDrain (invokeCallback cb r e h)"
    and rec: "completeHandler (wc h) = recordCompletion"
  shows "length (outside h2) + closedCount (contexts h) \<le>
         length (outside h) + closedCount (contexts h2)"
proof -
  obtain q0 h1 where run: "invokeCallback cb r e h = (q0, h1)"
    by (cases "invokeCallback cb r e h")
  from assms run have "thenDrain (q0, h1) = (q, h2)" by simp
  from thenDrain_cases [OF this]
  have c: "(\<exists>g. q0 = Panics g \<and> h2 = h1) \<or> h2 = h1\<lparr>wc := (wc h1)\<lparr>executeDecisions := []\<rparr>\<rparr>"
    by (auto simp: drain_eq)
  from invokeCallback_completions [OF rec run] c show ?thesis by auto
qed

lemma thenDrain_Execute:
  assumes "(q, h2) = thenDrain (Execute w input h)"
  shows "length (contexts h2) = Suc (length (contexts h))"
    and "workflowInfo (wc h2) = workflowInfo (wc h)"
    and "workflowDefinitionFactory (wc h2) = workflowDefinitionFactory (wc h)"
    and "scheduledEventIDToActivityID (wc h2) = scheduledEventIDToActivityID (wc h)"
    and "completeHandler (wc h2) = completeHandler (wc h)"
    and "executeDecisions (wc h) = [] \<Longrightarrow> executeDecisions (wc h2) = []"
proof -
  obtain q0 h1 where run: "Execute w input h = (q0, h1)"
    by (cases "Execute w input h")
  note f = Execute_frame [OF run]
  from assms run have "thenDrain (q0, h1) = (q, h2)" by simp
  from thenDrain_cases [OF this]
  have c: "(\<exists>g. q0 = Panics g \<and> h2 = h1) \<or> h2 = h1\<lparr>wc := (wc h1)\<lparr>executeDecisions := []\<rparr>\<rparr>"
    by (auto simp: drain_eq)
  from c f show "length (contexts h2) = Suc (length (contexts h))"
    and "workflowInfo (wc h2) = workflowInfo (wc h)"
    and "workflowDefinitionFactory (wc h2) = workflowDefinitionFactory (wc h)"
    and "scheduledEventIDToActivityID (wc h2) = scheduledEventIDToActivityID (wc h)"
    and "completeHandler (wc h2) = completeHandler (wc h)"
    by auto
  show "executeDecisions (wc h2) = []" if "executeDecisions (wc h) = []"
    using c that run by (auto dest: Execute_Panics)
qed

lemma thenDrain_Execute_completions:
  assumes "(q, h2) = thenDrain (Execute w input h)"
    and rec: "completeHandler (wc h) = recordCompletion"
  shows "length (outside h2) + closedCount (contexts h) \<le>
         length (outside h) + closedCount (contexts h2)"
proof -
  obtain q0 h1 where run: "Execute w input h = (q0, h1)"
    by (cases "Execute w input h")
  from assms run have "thenDrain (q0, h1) = (q, h2)" by simp
  from thenDrain_cases [OF this]
  have c: "(\<exists>g. q0 = Panics g \<and> h2 = h1) \<or> h2 = h1\<lparr>wc := (wc h1)\<lparr>executeDecisions := []\<rparr>\<rparr>"
    by (auto simp: drain_eq)
  from Execute_completions [OF rec run] c show ?thesis by auto
qed

lemma ProcessEvent_pending:
  assumes "executeDecisions (wc h) = []" and "ProcessEvent ev h = (q, h2)"
  shows "executeDecisions (wc h2) = []"
  using ProcessEvent_cases [OF assms(2)] assms(1)
  by (elim disjE exE conjE)
     (auto simp: drain_eq dest: thenDrain_invokeCallback(6) thenDrain_Execute(6))

lemma ProcessEvent_frame:
  assumes "ProcessEvent ev h = (q, h2)"
  shows "workflowInfo (wc h2) = workflowInfo (wc h) \<and>
         workflowDefinitionFactory (wc h2) = workflowDefinitionFactory (wc h) \<and>
         completeHandler (wc h2) = completeHandler (wc h)"
  using ProcessEvent_cases [OF assms]
  by (elim disjE exE conjE)
     (auto simp: drain_eq dest: thenDrain_invokeCallback(2,3,5) thenDrain_Execute(2,3,5))

lemma ProcessEvent_mapping:
  assumes "\<not> schedules E ev" and "ProcessEvent ev h = (q, h2)"
  shows "scheduledEventIDToActivityID (wc h2) E = scheduledEventIDToActivityID (wc h) E"
proof -
  have ne: "E' \<noteq> E" if "schedules E' ev" for E'
    using that assms(1) by (auto simp: schedules_def split: option.splits)
  from ProcessEvent_cases [OF assms(2)] assms(1) show ?thesis
    by (elim disjE exE conjE)
       (auto simp: drain_eq dest: thenDrain_invokeCallback(4) thenDrain_Execute(4))
qed

lemma ProcessEvent_completions:
  assumes "completeHandler (wc h) = recordCompletion" and "ProcessEvent ev h = (q, h2)"
  shows "length (outside h2) + closedCount (contexts h) \<le>
         length (outside h) + closedCount (contexts h2) \<and>
         length (contexts h2) \<le> length (contexts h) + (if isStarted ev then 1 else 0)"
  using ProcessEvent_cases [OF assms(2)] assms(1)
  by (elim disjE exE conjE)
     (auto simp: drain_eq dest: thenDrain_invokeCallback(1) thenDrain_Execute(1)
        thenDrain_invokeCallback_completions thenDrain_Execute_completions)

subsection \<open>The pump\<close>

text \<open>
  Claim C6. When \<^verbatim>\<open>ExecuteUntilAllBlocked\<close> returns a recovered panic,
  \<^verbatim>\<open>executeDispatcher\<close> returns after one call of \<^verbatim>\<open>Complete\<close>, with a nil result and
  the error whose reason is the panic's message and whose details are its stack trace,
  and the dispatcher is closed; no workflow result is reported, whatever the result slot
  holds. When the pump succeeds and the result slot is still empty, it returns without
  a call of \<^verbatim>\<open>Complete\<close>, and the dispatcher is as the pump left it, not closed.
\<close>

theorem executeDispatcher_panic_or_waiting:
  "i < length (contexts h) \<and>
   ExecuteUntilAllBlocked (dispatcher (contexts h ! i)) = Returns (p, d) \<longrightarrow>
   (panicked p = Some pe \<longrightarrow>
      fst (executeDispatcher i h) = Returns () \<and>
      outside (snd (executeDispatcher i h)) =
        completeHandler (wc h) None
          (Some (errorImpl (panic_Error pe) (Some (panic_StackTrace pe)))) (outside h) \<and>
      dispatcher (contexts (snd (executeDispatcher i h)) ! i) = Close d) \<and>
   (panicked p = None \<and> returned p = None \<and> result (contexts h ! i) = None \<longrightarrow>
      fst (executeDispatcher i h) = Returns () \<and>
      outside (snd (executeDispatcher i h)) = outside h \<and>
      dispatcher (contexts (snd (executeDispatcher i h)) ! i) = d \<and>
      \<not> closed d)"
  by (auto simp: executeDispatcher_def pump_def completeAndClose_def Complete_def NewError_def
      scheduled_frame ExecuteUntilAllBlocked_def nothingPumped_def
      split: if_splits prod.splits)


text \<open>
  The workflow that panics with \<^verbatim>\<open>nope\<close>: one call of \<^verbatim>\<open>Complete\<close>, and the dispatcher
  is closed. The example workflow while it waits for its activity: no call, and the
  dispatcher stays open.
\<close>

theorem executeDispatcher_panic_or_waiting_witness:
  "0 < length (contexts panickingHandler) \<and>
   ExecuteUntilAllBlocked (dispatcher (contexts panickingHandler ! 0)) =
     Returns (\<lparr>panicked = Some \<lparr>panic_Error = ''nope'', panic_StackTrace = ''root''\<rparr>,
                scheduled = [], returned = None\<rparr>,
              \<lparr>program = panicsAtOnce, coroutines = False, closed = False, poisoned = True\<rparr>) \<and>
   fst (executeDispatcher 0 panickingHandler) = Returns () \<and>
   outside (snd (executeDispatcher 0 panickingHandler)) =
     [(None, Some (errorImpl ''nope'' (Some ''root'')))] \<and>
   closed (dispatcher (contexts (snd (executeDispatcher 0 panickingHandler)) ! 0)) \<and>
   ExecuteUntilAllBlocked (dispatcher (contexts waitingHandler ! 0)) =
     Returns (nothingPumped, dispatcher (contexts waitingHandler ! 0)) \<and>
   outside (snd (executeDispatcher 0 waitingHandler)) = [] \<and>
   \<not> closed (dispatcher (contexts (snd (executeDispatcher 0 waitingHandler)) ! 0))"
proof -
  let ?p = "\<lparr>panicked = Some \<lparr>panic_Error = ''nope'', panic_StackTrace = ''root''\<rparr>,
             scheduled = [], returned = None\<rparr> :: unit pumped"
  let ?d = "\<lparr>program = panicsAtOnce, coroutines = False, closed = False, poisoned = True\<rparr>"
  have len: "0 < length (contexts panickingHandler)"
    by (simp add: panickingHandler_def)
  have run: "ExecuteUntilAllBlocked (dispatcher (contexts panickingHandler ! 0)) = Returns (?p, ?d)"
    by (simp add: panickingHandler_def ExecuteUntilAllBlocked_def NewDispatcher_def
        panicsAtOnce_simps) (simp add: panicsAtOnce_def)
  have ch: "completeHandler (wc panickingHandler) = recordCompletion"
    "outside panickingHandler = []"
    by (simp_all add: panickingHandler_def newWorkflowExecutionEventHandler_def)
  have wlen: "0 < length (contexts waitingHandler)"
    by (simp add: waitingHandler_eq)
  have wrun: "ExecuteUntilAllBlocked (dispatcher (contexts waitingHandler ! 0)) =
      Returns (nothingPumped, dispatcher (contexts waitingHandler ! 0))"
    by (simp add: waitingHandler_eq ExecuteUntilAllBlocked_def oneActivity_simps
        nothingPumped_def)
  have wres: "result (contexts waitingHandler ! 0) = None" "outside waitingHandler = []"
    by (simp_all add: waitingHandler_eq)
  from executeDispatcher_panic_or_waiting
         [of 0 panickingHandler ?p ?d "\<lparr>panic_Error = ''nope'', panic_StackTrace = ''root''\<rparr>"]
       executeDispatcher_panic_or_waiting
         [of 0 waitingHandler nothingPumped "dispatcher (contexts waitingHandler ! 0)"]
       len run ch wlen wrun wres
  show ?thesis
    by (simp add: recordCompletion_def Close_def nothingPumped_def)
qed

subsection \<open>A failed activity without a reason\<close>

text \<open>
  Claim C10. For an \<^verbatim>\<open>ActivityTaskFailed\<close> event whose scheduled event id resolves to
  a registered callback that is not nil, \<^verbatim>\<open>handleActivityTaskFailed\<close> reads through
  the \<^verbatim>\<open>Reason\<close> pointer before it invokes the callback: without a reason the handler
  panics with a nil pointer dereference and the callback is not invoked; with a reason
  the callback receives a nil result and an \<^verbatim>\<open>ActivityTaskFailedError\<close> with the
  reason and the details of the event, and the pending decisions are drained.
\<close>

theorem failed_event_dereferences_reason:
  "scheduledEventIDToActivityID (wc h) (GetScheduledEventId (failed_ScheduledEventId a)) = Some A \<and>
   scheduledActivites (wc h) A = Some (Some cb) \<longrightarrow>
   handleActivityTaskFailed (Some a) h =
     (case failed_Reason a of
        None \<Rightarrow> (Panics NilPointerDereference, h)
      | Some reason \<Rightarrow>
          thenDrain (invokeCallback cb None
            (Some (ActivityTaskFailedError reason (failed_Details a))) h))"
  by (simp add: handleActivityTaskFailed_def)

text \<open>
  The example workflow waits for the activity \<^verbatim>\<open>0\<close>, scheduled by the event 5. A failed
  event without a reason panics; one with the reason \<^verbatim>\<open>boom\<close> reaches the workflow,
  which fails with that error.
\<close>

theorem failed_event_dereferences_reason_witness:
  "scheduledEventIDToActivityID (wc waitingHandler) 5 = Some ''0'' \<and>
   scheduledActivites (wc waitingHandler) ''0'' = Some (Some (activityCallback 0 ())) \<and>
   handleActivityTaskFailed
     (Some \<lparr>failed_Reason = None, failed_Details = Some ''d'',
            failed_ScheduledEventId = Some 5\<rparr>) waitingHandler =
     (Panics NilPointerDereference, waitingHandler) \<and>
   fst (handleActivityTaskFailed
     (Some \<lparr>failed_Reason = Some ''boom'', failed_Details = Some ''d'',
            failed_ScheduledEventId = Some 5\<rparr>) waitingHandler) = Returns (Some [], None) \<and>
   outside (snd (handleActivityTaskFailed
     (Some \<lparr>failed_Reason = Some ''boom'', failed_Details = Some ''d'',
            failed_ScheduledEventId = Some 5\<rparr>) waitingHandler)) =
     [(None, Some (ActivityTaskFailedError ''boom'' (Some ''d'')))]"
proof -
  have m: "scheduledEventIDToActivityID (wc waitingHandler) 5 = Some ''0''"
    "scheduledActivites (wc waitingHandler) ''0'' = Some (Some (activityCallback 0 ()))"
    by (simp_all add: waitingHandler_eq)
  have inv: "thenDrain (invokeCallback (activityCallback 0 ()) None
               (Some (ActivityTaskFailedError ''boom'' (Some ''d''))) waitingHandler) =
             (Returns (Some [], None),
              waitingHandler
                \<lparr>contexts := [\<lparr>dispatcher = \<lparr>program = oneActivity, coroutines = Finished,
                                              closed = True, poisoned = False\<rparr>,
                               result = Some \<lparr>result_workflowResult = None,
                                 result_error = Some (ActivityTaskFailedError ''boom'' (Some ''d''))\<rparr>\<rparr>],
                 outside := [(None, Some (ActivityTaskFailedError ''boom'' (Some ''d'')))]\<rparr>)"
    by (simp add: waitingHandler_eq invokeCallback_def executeDispatcher_def pump_def
        ExecuteUntilAllBlocked_def completeAndClose_def Complete_def recordCompletion_def
        Close_def thenDrain_def drain_def SwapExecuteDecisions_def oneActivity_simps)
  from failed_event_dereferences_reason
         [of waitingHandler "\<lparr>failed_Reason = None, failed_Details = Some ''d'',
            failed_ScheduledEventId = Some 5\<rparr>" "''0''" "activityCallback 0 ()"]
       failed_event_dereferences_reason
         [of waitingHandler "\<lparr>failed_Reason = Some ''boom'', failed_Details = Some ''d'',
            failed_ScheduledEventId = Some 5\<rparr>" "''0''" "activityCallback 0 ()"]
       m inv
  show ?thesis by (simp add: GetScheduledEventId_def)
qed

subsection \<open>Histories\<close>

lemma processEvents_pending:
  "executeDecisions (wc h) = [] \<Longrightarrow> executeDecisions (wc (snd (processEvents h H))) = []"
proof (induction H arbitrary: h)
  case Nil
  then show ?case by simp
next
  case (Cons e H)
  obtain q h1 where s: "ProcessEvent e h = (q, h1)" by (cases "ProcessEvent e h")
  from ProcessEvent_pending [OF Cons.prems s] have "executeDecisions (wc h1) = []" .
  from Cons.IH [OF this] s show ?case by (simp add: split_beta)
qed

lemma processEvents_mapping:
  "\<forall>e\<in>set H. \<not> schedules E e \<Longrightarrow>
   scheduledEventIDToActivityID (wc (snd (processEvents h H))) E =
   scheduledEventIDToActivityID (wc h) E"
proof (induction H arbitrary: h)
  case Nil
  then show ?case by simp
next
  case (Cons e H)
  obtain q h1 where s: "ProcessEvent e h = (q, h1)" by (cases "ProcessEvent e h")
  from Cons.prems have "\<not> schedules E e" and rest: "\<forall>e\<in>set H. \<not> schedules E e" by simp_all
  from ProcessEvent_mapping [OF this(1) s]
  have "scheduledEventIDToActivityID (wc h1) E = scheduledEventIDToActivityID (wc h) E" .
  with Cons.IH [OF rest, of h1] s show ?case by (simp add: split_beta)
qed

lemma processEvents_completions:
  "completeHandler (wc h) = recordCompletion \<Longrightarrow>
   length (outside (snd (processEvents h H))) + closedCount (contexts h) \<le>
     length (outside h) + closedCount (contexts (snd (processEvents h H))) \<and>
   length (contexts (snd (processEvents h H))) \<le> length (contexts h) + length (filter isStarted H)"
proof (induction H arbitrary: h)
  case Nil
  then show ?case by simp
next
  case (Cons e H)
  obtain q h1 where s: "ProcessEvent e h = (q, h1)" by (cases "ProcessEvent e h")
  from ProcessEvent_frame [OF s] Cons.prems
  have rec1: "completeHandler (wc h1) = recordCompletion" by simp
  note step = ProcessEvent_completions [OF Cons.prems s]
  note rest = Cons.IH [OF rec1]
  have e: "snd (processEvents h (e # H)) = snd (processEvents h1 H)"
    using s by (simp add: split_beta)
  from step rest show ?case unfolding e by (auto split: if_splits)
qed


text \<open>
  Claim C7. \<^verbatim>\<open>SwapExecuteDecisions\<close> returns the pending decisions, in the order they
  were appended, and leaves its argument as the pending decisions. After every event of
  every history, fed to a new handler, no decision is pending: each event that produces
  decisions drains them, so no decision of an event is still in the queue when the next
  event is processed, and the batch returned for the next event holds none of them.
\<close>

theorem swap_drains_pending_decisions:
  "SwapExecuteDecisions new w = (executeDecisions w, w\<lparr>executeDecisions := new\<rparr>) \<and>
   executeDecisions (wc (snd (processEvents
      (newWorkflowExecutionEventHandler info factory completionHandler x) H))) = []"
  by (simp add: SwapExecuteDecisions_def processEvents_pending
      newWorkflowExecutionEventHandler_def)

text \<open>
  With a completion handler that records its calls, a new handler that has processed a
  history has called \<^verbatim>\<open>Complete\<close> at most once for each \<^verbatim>\<open>WorkflowExecutionStarted\<close>
  event of the history: every call is followed by the close of its dispatcher, and a
  closed dispatcher rejects the pump.
\<close>

lemma completions_bounded_by_starts:
  "length (outside (snd (processEvents
      (newWorkflowExecutionEventHandler info factory recordCompletion []) H)))
   \<le> length (filter isStarted H)"
proof -
  let ?h = "newWorkflowExecutionEventHandler info factory recordCompletion []"
  have "completeHandler (wc ?h) = recordCompletion"
    by (simp add: newWorkflowExecutionEventHandler_def)
  from processEvents_completions [OF this, of H]
  have "length (outside (snd (processEvents ?h H))) \<le>
          closedCount (contexts (snd (processEvents ?h H)))"
    and "length (contexts (snd (processEvents ?h H))) \<le> length (filter isStarted H)"
    by (simp_all add: newWorkflowExecutionEventHandler_def closedCount_def)
  with closedCount_le [of "contexts (snd (processEvents ?h H))"] show ?thesis by linarith
qed


text \<open>
  Claim C3. A new handler that has processed the history of one execution, with at most
  one \<^verbatim>\<open>WorkflowExecutionStarted\<close> event in it, has called \<^verbatim>\<open>Complete\<close> at most once:
  whether the workflow returned, failed or panicked, and however often the callbacks of
  \<^verbatim>\<open>ExecuteActivity\<close> pumped the dispatcher again. The completion handler records
  its calls.
\<close>

theorem complete_at_most_once:
  "length (filter isStarted H) \<le> 1 \<longrightarrow>
   length (outside (snd (processEvents
      (newWorkflowExecutionEventHandler info factory recordCompletion []) H))) \<le> 1"
  using completions_bounded_by_starts [of info factory H] by simp

text \<open>
  The example workflow, started, its activity scheduled and completed: one call of
  \<^verbatim>\<open>Complete\<close>, with the activity's result.
\<close>

theorem complete_at_most_once_witness:
  "length (filter isStarted
     [Some (startedEvent (Some ''x'')), Some (scheduledEvent 5 ''0''),
      Some (completedEvent \<lparr>completed_Result = Some ''y'',
                             completed_ScheduledEventId = Some 5\<rparr>)]) \<le> 1 \<and>
   length (outside (snd (processEvents
     (newWorkflowExecutionEventHandler exampleInfo (exampleFactory oneActivity)
        recordCompletion [])
     [Some (startedEvent (Some ''x'')), Some (scheduledEvent 5 ''0''),
      Some (completedEvent \<lparr>completed_Result = Some ''y'',
                             completed_ScheduledEventId = Some 5\<rparr>)]))) \<le> 1 \<and>
   outside (snd (processEvents
     (newWorkflowExecutionEventHandler exampleInfo (exampleFactory oneActivity)
        recordCompletion [])
     [Some (startedEvent (Some ''x'')), Some (scheduledEvent 5 ''0''),
      Some (completedEvent \<lparr>completed_Result = Some ''y'',
                             completed_ScheduledEventId = Some 5\<rparr>)])) =
   [(Some ''y'', None)]"
proof -
  let ?new = "newWorkflowExecutionEventHandler exampleInfo (exampleFactory oneActivity)
                recordCompletion []"
  let ?c = "completedEvent \<lparr>completed_Result = Some ''y'', completed_ScheduledEventId = Some 5\<rparr>"
  let ?H = "[Some (startedEvent (Some ''x'')), Some (scheduledEvent 5 ''0''), Some ?c]"
  have starts: "length (filter isStarted ?H) \<le> 1"
    by (simp add: isStarted_def startedEvent_def scheduledEvent_def completedEvent_def
        event_def GetEventType_def)
  have run: "snd (processEvents ?new ?H) = snd (ProcessEvent (Some ?c) waitingHandler)"
    by (simp add: waitingHandler_def startedHandler_def split_beta)
  have fin: "outside (snd (ProcessEvent (Some ?c) waitingHandler)) = [(Some ''y'', None)]"
    by (simp add: waitingHandler_eq completedEvent_def event_def ProcessEvent_def
        GetEventType_def GetScheduledEventId_def handleActivityTaskCompleted_def
        invokeCallback_def executeDispatcher_def pump_def
        ExecuteUntilAllBlocked_def completeAndClose_def Complete_def recordCompletion_def
        Close_def thenDrain_def drain_def SwapExecuteDecisions_def oneActivity_simps)
  from complete_at_most_once [of ?H exampleInfo "exampleFactory oneActivity"] starts run fin
  show ?thesis by simp
qed

text \<open>
  Each \<^verbatim>\<open>WorkflowExecutionStarted\<close> event starts a dispatcher of its own: fed two of
  them, a workflow that returns at once completes twice.
\<close>

lemma two_starts_complete_twice:
  "outside (snd (processEvents
      (newWorkflowExecutionEventHandler exampleInfo (exampleFactory returnsAtOnce)
         recordCompletion [])
      [Some (startedEvent None), Some (startedEvent None)])) =
   [(Some ''done'', None), (Some ''done'', None)]"
  by (simp add: newWorkflowExecutionEventHandler_def exampleFactory_def returnsAtOnce_def
      startedEvent_def event_def ProcessEvent_def GetEventType_def
      handleWorkflowExecutionStarted_def Execute_def executeDispatcher_def pump_def
      ExecuteUntilAllBlocked_def NewDispatcher_def completeAndClose_def Complete_def
      recordCompletion_def Close_def thenDrain_def drain_def SwapExecuteDecisions_def
      nothingPumped_def exampleInfo_def)

subsection \<open>Routing by event id\<close>

lemma scheduled_then_later:
  assumes "GetEventType s = EventType_ActivityTaskScheduled"
    and "ActivityTaskScheduledAttributes s = Some sa"
    and "\<forall>e\<in>set later. \<not> schedules (GetEventId s) e"
  shows "scheduledEventIDToActivityID (wc (snd (processEvents h (Some s # later)))) (GetEventId s)
         = Some (GetScheduledActivityId sa)"
proof -
  let ?h1 = "h\<lparr>wc := (wc h)\<lparr>scheduledEventIDToActivityID :=
               (scheduledEventIDToActivityID (wc h))(GetEventId s \<mapsto> GetScheduledActivityId sa)\<rparr>\<rparr>"
  have "ProcessEvent (Some s) h = (Returns (None, None), ?h1)"
    using assms(1,2) by (simp add: ProcessEvent_def recordScheduled_def GetScheduledActivityId_def)
  then have "snd (processEvents h (Some s # later)) = snd (processEvents ?h1 later)"
    by (simp add: split_beta)
  with processEvents_mapping [OF assms(3), of ?h1] show ?thesis by simp
qed


text \<open>
  Routing, where the handler delivers. Once \<^verbatim>\<open>ActivityTaskScheduled\<close> with the event id \<open>E\<close> and the activity id
  \<open>A\<close> has been processed, and no later \<^verbatim>\<open>ActivityTaskScheduled\<close> event carries \<open>E\<close>
  again (event ids increase along a history), the handler maps \<open>E\<close> to \<open>A\<close>, and a
  terminal activity event that carries \<open>E\<close> invokes the callback registered under \<open>A\<close>:
  with the result for a completed activity, with an \<^verbatim>\<open>ActivityTaskFailedError\<close> for a
  failed one that carries a reason, with an \<^verbatim>\<open>ActivityTaskTimeoutError\<close> for one that
  timed out; the pending decisions are then drained. When the handler has no entry for
  \<open>E\<close> and the history schedules none, a terminal activity event that carries \<open>E\<close>
  gets no decisions and the error \<^verbatim>\<open>unable to find activity ID\<close>, and the handler is
  unchanged: no callback is invoked.
\<close>

lemma event_id_routing:
  "(GetEventType s = EventType_ActivityTaskScheduled \<and>
    ActivityTaskScheduledAttributes s = Some sa \<and>
    (\<forall>e\<in>set later. \<not> schedules (GetEventId s) e) \<and>
    h1 = snd (processEvents h (Some s # later)) \<and>
    scheduledActivites (wc h1) (GetScheduledActivityId sa) = Some (Some cb) \<longrightarrow>
      scheduledEventIDToActivityID (wc h1) (GetEventId s) = Some (GetScheduledActivityId sa) \<and>
      (completedFor (GetEventId s) t a \<longrightarrow>
         ProcessEvent (Some t) h1 = thenDrain (invokeCallback cb (completed_Result a) None h1)) \<and>
      (failedFor (GetEventId s) t f \<and> failed_Reason f = Some reason \<longrightarrow>
         ProcessEvent (Some t) h1 =
           thenDrain (invokeCallback cb None
             (Some (ActivityTaskFailedError reason (failed_Details f))) h1)) \<and>
      (timedOutFor (GetEventId s) t out \<longrightarrow>
         ProcessEvent (Some t) h1 =
           thenDrain (invokeCallback cb None
             (Some (ActivityTaskTimeoutError (GetTimeoutType out))) h1))) \<and>
   (scheduledEventIDToActivityID (wc h0) E = None \<and>
    (\<forall>e\<in>set H. \<not> schedules E e) \<and>
    h2 = snd (processEvents h0 H) \<longrightarrow>
      (completedFor E t a \<longrightarrow>
         ProcessEvent (Some t) h2 =
           (Returns (None, Some (UnableToFindActivityID (CompletedAttributes a))), h2)) \<and>
      (failedFor E t f \<longrightarrow>
         ProcessEvent (Some t) h2 =
           (Returns (None, Some (UnableToFindActivityID (FailedAttributes f))), h2)) \<and>
      (timedOutFor E t out \<longrightarrow>
         ProcessEvent (Some t) h2 =
           (Returns (None, Some (UnableToFindActivityID (TimedOutAttributes out))), h2)))"
proof (intro conjI impI; (elim conjE)?)
  assume s: "GetEventType s = EventType_ActivityTaskScheduled"
    "ActivityTaskScheduledAttributes s = Some sa"
    "\<forall>e\<in>set later. \<not> schedules (GetEventId s) e"
    and h1: "h1 = snd (processEvents h (Some s # later))"
    and cb: "scheduledActivites (wc h1) (GetScheduledActivityId sa) = Some (Some cb)"
  from scheduled_then_later [OF s, of h] h1
  show m: "scheduledEventIDToActivityID (wc h1) (GetEventId s) = Some (GetScheduledActivityId sa)"
    by simp
  show "ProcessEvent (Some t) h1 = thenDrain (invokeCallback cb (completed_Result a) None h1)"
    if "completedFor (GetEventId s) t a"
    using that m cb by (simp add: completedFor_def ProcessEvent_def handleActivityTaskCompleted_def)
  show "ProcessEvent (Some t) h1 =
           thenDrain (invokeCallback cb None
             (Some (ActivityTaskFailedError reason (failed_Details f))) h1)"
    if "failedFor (GetEventId s) t f" "failed_Reason f = Some reason"
    using that m cb by (simp add: failedFor_def ProcessEvent_def handleActivityTaskFailed_def)
  show "ProcessEvent (Some t) h1 =
           thenDrain (invokeCallback cb None
             (Some (ActivityTaskTimeoutError (GetTimeoutType out))) h1)"
    if "timedOutFor (GetEventId s) t out"
    using that m cb by (simp add: timedOutFor_def ProcessEvent_def handleActivityTaskTimedOut_def)
next
  assume n: "scheduledEventIDToActivityID (wc h0) E = None"
    and H: "\<forall>e\<in>set H. \<not> schedules E e"
    and h2: "h2 = snd (processEvents h0 H)"
  from processEvents_mapping [OF H, of h0] n h2
  have m: "scheduledEventIDToActivityID (wc h2) E = None" by simp
  show "ProcessEvent (Some t) h2 =
           (Returns (None, Some (UnableToFindActivityID (CompletedAttributes a))), h2)"
    if "completedFor E t a"
    using that m by (simp add: completedFor_def ProcessEvent_def handleActivityTaskCompleted_def)
  show "ProcessEvent (Some t) h2 =
           (Returns (None, Some (UnableToFindActivityID (FailedAttributes f))), h2)"
    if "failedFor E t f"
    using that m by (simp add: failedFor_def ProcessEvent_def handleActivityTaskFailed_def)
  show "ProcessEvent (Some t) h2 =
           (Returns (None, Some (UnableToFindActivityID (TimedOutAttributes out))), h2)"
    if "timedOutFor E t out"
    using that m by (simp add: timedOutFor_def ProcessEvent_def handleActivityTaskTimedOut_def)
qed

text \<open>
  The example workflow: the completed event for the scheduled event 5 reaches the
  callback of the activity \<^verbatim>\<open>0\<close>, and the workflow completes with the activity's
  result; a completed event for the scheduled event 999 is an error.
\<close>

lemma event_id_routing_example:
  "GetEventType (scheduledEvent 5 ''0'') = EventType_ActivityTaskScheduled \<and>
   ActivityTaskScheduledAttributes (scheduledEvent 5 ''0'') =
     Some \<lparr>scheduled_ActivityId = Some ''0''\<rparr> \<and>
   waitingHandler = snd (processEvents startedHandler [Some (scheduledEvent 5 ''0'')]) \<and>
   scheduledActivites (wc waitingHandler) ''0'' = Some (Some (activityCallback 0 ())) \<and>
   scheduledEventIDToActivityID (wc waitingHandler) 5 = Some ''0'' \<and>
   completedFor 5
     (completedEvent \<lparr>completed_Result = Some ''y'', completed_ScheduledEventId = Some 5\<rparr>)
     \<lparr>completed_Result = Some ''y'', completed_ScheduledEventId = Some 5\<rparr> \<and>
   fst (ProcessEvent
     (Some (completedEvent \<lparr>completed_Result = Some ''y'', completed_ScheduledEventId = Some 5\<rparr>))
     waitingHandler) = Returns (Some [], None) \<and>
   outside (snd (ProcessEvent
     (Some (completedEvent \<lparr>completed_Result = Some ''y'', completed_ScheduledEventId = Some 5\<rparr>))
     waitingHandler)) = [(Some ''y'', None)] \<and>
   scheduledEventIDToActivityID (wc startedHandler) 999 = None \<and>
   completedFor 999
     (completedEvent \<lparr>completed_Result = Some ''y'', completed_ScheduledEventId = Some 999\<rparr>)
     \<lparr>completed_Result = Some ''y'', completed_ScheduledEventId = Some 999\<rparr> \<and>
   ProcessEvent
     (Some (completedEvent \<lparr>completed_Result = Some ''y'', completed_ScheduledEventId = Some 999\<rparr>))
     startedHandler =
   (Returns (None, Some (UnableToFindActivityID (CompletedAttributes
      \<lparr>completed_Result = Some ''y'', completed_ScheduledEventId = Some 999\<rparr>))), startedHandler)"
proof -
  let ?s = "scheduledEvent 5 ''0''"
  let ?sa = "\<lparr>scheduled_ActivityId = Some ''0''\<rparr>"
  let ?a = "\<lparr>completed_Result = Some ''y'', completed_ScheduledEventId = Some 5\<rparr>"
  let ?b = "\<lparr>completed_Result = Some ''y'', completed_ScheduledEventId = Some 999\<rparr>"
  have s: "GetEventType ?s = EventType_ActivityTaskScheduled"
    "ActivityTaskScheduledAttributes ?s = Some ?sa" "GetEventId ?s = 5"
    "GetScheduledActivityId ?sa = ''0''"
    by (simp_all add: scheduledEvent_def event_def GetEventType_def GetEventId_def
        GetScheduledActivityId_def)
  have w: "waitingHandler = snd (processEvents startedHandler (Some ?s # []))"
    by (simp add: waitingHandler_def)
  have cb: "scheduledActivites (wc waitingHandler) ''0'' = Some (Some (activityCallback 0 ()))"
    by (simp add: waitingHandler_eq)
  have ca: "completedFor 5 (completedEvent ?a) ?a" "completedFor 999 (completedEvent ?b) ?b"
    by (simp_all add: completedFor_def completedEvent_def event_def GetEventType_def
        GetScheduledEventId_def)
  have none: "scheduledEventIDToActivityID (wc startedHandler) 999 = None"
    by (simp add: startedHandler_eq)
  have h2: "startedHandler = snd (processEvents startedHandler [])" by simp
  have inv: "thenDrain (invokeCallback (activityCallback 0 ()) (Some ''y'') None waitingHandler) =
             (Returns (Some [], None),
              waitingHandler
                \<lparr>contexts := [\<lparr>dispatcher = \<lparr>program = oneActivity, coroutines = Finished,
                                              closed = True, poisoned = False\<rparr>,
                               result = Some \<lparr>result_workflowResult = Some ''y'',
                                 result_error = None\<rparr>\<rparr>],
                 outside := [(Some ''y'', None)]\<rparr>)"
    by (simp add: waitingHandler_eq invokeCallback_def executeDispatcher_def pump_def
        ExecuteUntilAllBlocked_def completeAndClose_def Complete_def recordCompletion_def
        Close_def thenDrain_def drain_def SwapExecuteDecisions_def oneActivity_simps)
  from event_id_routing
         [of ?s ?sa "[]" waitingHandler startedHandler "activityCallback 0 ()"
             "completedEvent ?a" ?a _ _ _ startedHandler 999 "[]" startedHandler]
       event_id_routing
         [of ?s ?sa "[]" waitingHandler startedHandler "activityCallback 0 ()"
             "completedEvent ?b" ?b _ _ _ startedHandler 999 "[]" startedHandler]
       s w cb ca none h2 inv
  show ?thesis by simp
qed

text \<open>
  Claim C2, at a failed activity without a reason. The example workflow waits for the
  activity \<^verbatim>\<open>0\<close>, scheduled by the event 5, and its callback is registered under
  \<^verbatim>\<open>0\<close>. The \<^verbatim>\<open>ActivityTaskFailed\<close> event that carries the scheduled event id 5 and
  no reason resolves to that callback, and \<^verbatim>\<open>ProcessEvent\<close> panics with a nil pointer
  dereference before it invokes it: the handler is unchanged.
\<close>

theorem failed_without_reason_invokes_no_callback:
  "waitingHandler =
     snd (processEvents
       (newWorkflowExecutionEventHandler exampleInfo (exampleFactory oneActivity)
          recordCompletion [])
       [Some (startedEvent (Some ''x'')), Some (scheduledEvent 5 ''0'')]) \<and>
   scheduledEventIDToActivityID (wc waitingHandler) 5 = Some ''0'' \<and>
   scheduledActivites (wc waitingHandler) ''0'' = Some (Some (activityCallback 0 ())) \<and>
   ProcessEvent
     (Some (failedEvent \<lparr>failed_Reason = None, failed_Details = Some ''d'',
                          failed_ScheduledEventId = Some 5\<rparr>))
     waitingHandler =
   (Panics NilPointerDereference, waitingHandler)"
proof (intro conjI)
  show "waitingHandler =
     snd (processEvents
       (newWorkflowExecutionEventHandler exampleInfo (exampleFactory oneActivity)
          recordCompletion [])
       [Some (startedEvent (Some ''x'')), Some (scheduledEvent 5 ''0'')])"
    by (simp add: waitingHandler_def startedHandler_def split_beta)
  show "scheduledEventIDToActivityID (wc waitingHandler) 5 = Some ''0''"
    by (simp add: waitingHandler_eq)
  show "scheduledActivites (wc waitingHandler) ''0'' = Some (Some (activityCallback 0 ()))"
    by (simp add: waitingHandler_eq)
  have "scheduledEventIDToActivityID (wc waitingHandler) 5 = Some ''0''"
    "scheduledActivites (wc waitingHandler) ''0'' = Some (Some (activityCallback 0 ()))"
    by (simp_all add: waitingHandler_eq)
  then show "ProcessEvent
     (Some (failedEvent \<lparr>failed_Reason = None, failed_Details = Some ''d'',
                          failed_ScheduledEventId = Some 5\<rparr>))
     waitingHandler =
   (Panics NilPointerDereference, waitingHandler)"
    by (simp add: failedEvent_def event_def ProcessEvent_def GetEventType_def
        GetScheduledEventId_def handleActivityTaskFailed_def)
qed

end
